theory Spec2Isabelle
  imports Complex_Main "HOL-Library.Word"
begin

section \<open>Data model of plugin.cpp\<close>

text \<open>
  The 64-bit connection handle (\<^verbatim>\<open>uint64 serverConnectionHandlerID\<close>) and the 16-bit client
  identifier (\<^verbatim>\<open>anyID\<close>) are machine words. A \<^verbatim>\<open>time_t\<close> is an integer number of seconds and a
  \<^verbatim>\<open>double\<close> is read as a real number: the loop only subtracts two clock readings and compares
  the result (and a distance) with a threshold.
\<close>

type_synonym uint64 = "64 word"
type_synonym anyID = "16 word"
type_synonym time_t = int

record Vector2D =
  v2_x :: real
  v2_y :: real

record Vector3D =
  v3_x :: real
  v3_y :: real
  v3_z :: real

text \<open>
  Modelled from the spec: the default constructor \<^verbatim>\<open>Gw2Api::Vector2D()\<close> (gw2api, not part of
  plugin.cpp); the spec's cleared record has "all numeric fields zero".
\<close>

definition Vector2D_default :: Vector2D where
  "Vector2D_default = \<lparr>v2_x = 0, v2_y = 0\<rparr>"

text \<open>A rectangle of the map data, kept as its two corner points.\<close>

type_synonym Rect = "Vector2D \<times> Vector2D"

text \<open>\<^verbatim>\<open>Gw2Api::MumbleLink::MumbleIdentity\<close>, the fields that the loop reads (lines 422-427).\<close>

record MumbleIdentity =
  id_name :: string
  id_profession :: int
  id_map_id :: int
  id_world_id :: int
  id_team_color_id :: int
  id_commander :: bool

text \<open>\<^verbatim>\<open>Gw2Api::MapEntry\<close>, the fields that the loop reads (lines 435-439 and 470).\<close>

record MapEntry =
  map_name :: string
  region_id :: int
  region_name :: string
  continent_id :: int
  continent_name :: string
  map_rect :: Rect
  continent_rect :: Rect

text \<open>\<^verbatim>\<open>Gw2Api::PointOfInterestEntry\<close>, the fields that the loop reads (lines 478-484).\<close>

record PointOfInterestEntry =
  poi_id :: int
  poi_name :: string
  coord :: Vector2D

text \<open>\<^verbatim>\<open>Gw2Info\<close>, the presence record; every field that plugin.cpp assigns.\<close>

record Gw2Info =
  characterName :: string
  profession :: int
  mapId :: int
  mapName :: string
  regionId :: int
  regionName :: string
  continentId :: int
  continentName :: string
  worldId :: int
  worldName :: string
  teamColorId :: int
  commander :: bool
  characterContinentPosition :: Vector2D
  waypointId :: int
  waypointName :: string
  waypointContinentPosition :: Vector2D

text \<open>
  Modelled from the spec: \<^verbatim>\<open>Gw2Info::clear()\<close> (gw2info, not part of plugin.cpp). The spec's
  data model says the record is "fully cleared (all numeric fields zero, strings empty)".
\<close>

definition clear :: Gw2Info where
  "clear = \<lparr>characterName = [], profession = 0, mapId = 0, mapName = [], regionId = 0,
     regionName = [], continentId = 0, continentName = [], worldId = 0, worldName = [],
     teamColorId = 0, commander = False, characterContinentPosition = Vector2D_default,
     waypointId = 0, waypointName = [], waypointContinentPosition = Vector2D_default\<rparr>"

text \<open>\<^verbatim>\<open>Gw2RemoteInfo\<close>: a received record with the connection and the client that sent it.\<close>

record Gw2RemoteInfo =
  remoteInfo :: Gw2Info
  remoteServerConnectionHandlerID :: uint64
  remoteClientID :: anyID

datatype PluginCommandTarget = PluginCommandTarget_SERVER | PluginCommandTarget_CLIENT

text \<open>
  The values of \<^verbatim>\<open>int newStatus\<close> that the switch of line 281 tells apart; every other value
  is \<open>STATUS_OTHER\<close>.
\<close>

datatype ConnectStatus = STATUS_DISCONNECTED | STATUS_CONNECTION_ESTABLISHED | STATUS_OTHER int

text \<open>
  The values of \<^verbatim>\<open>Commands::CommandType\<close> that the switch of line 325 tells apart; every other
  value of the enumeration is \<open>CMD_OTHER\<close>.
\<close>

datatype CommandType = CMD_NONE | CMD_GW2INFO | CMD_REQUESTGW2INFO | CMD_OTHER int

text \<open>
  What the plugin asks of its collaborators, in the order of the calls:
  \<^verbatim>\<open>Commands::sendGW2Info\<close> (with the target and the optional client pointer),
  \<^verbatim>\<open>ts3Functions.requestInfoUpdate\<close> and \<^verbatim>\<open>checkForUpdates\<close>, the check for a new version of
  the plugin. Calls of \<^verbatim>\<open>debuglog\<close> are left out.
\<close>

datatype Effect =
    sendGW2Info uint64 Gw2Info PluginCommandTarget "anyID option"
  | requestInfoUpdate uint64 int uint64
  | checkForUpdates

text \<open>An exception that a C++ library call of the handlers can throw.\<close>

datatype error = out_of_range

section \<open>Library functions\<close>

text \<open>\<^verbatim>\<open>std::to_string\<close> on an integer: decimal digits, with a minus sign when negative.\<close>

definition digit_char :: "nat \<Rightarrow> char" where
  "digit_char d = ''0123456789'' ! d"

fun digits :: "nat \<Rightarrow> string" where
  "digits n = (if n < 10 then [digit_char n] else digits (n div 10) @ [digit_char (n mod 10)])"

declare digits.simps [simp del]

definition to_string :: "int \<Rightarrow> string" where
  "to_string i = (if i < 0 then CHR ''-'' # digits (nat (- i)) else digits (nat i))"

text \<open>\<^verbatim>\<open>difftime(a, b)\<close>: the seconds from \<open>b\<close> to \<open>a\<close>, as a double.\<close>

definition difftime :: "time_t \<Rightarrow> time_t \<Rightarrow> real" where
  "difftime a b = real_of_int (a - b)"

text \<open>\<^verbatim>\<open>std::vector::at\<close>: throws \<^verbatim>\<open>std::out_of_range\<close> beyond the end.\<close>

definition vector_at :: "'a list \<Rightarrow> nat \<Rightarrow> error + 'a" where
  "vector_at xs i = (if i < length xs then Inr (xs ! i) else Inl out_of_range)"

text \<open>
  \<^verbatim>\<open>atoi\<close>: skips white space, reads an optional sign and the decimal digits that follow, and
  stops at the first other character. The plugin is built with the Microsoft runtime
  (\<^verbatim>\<open>strcpy_s\<close>, \<^verbatim>\<open>_strdup\<close>), whose \<^verbatim>\<open>atoi\<close> returns \<^verbatim>\<open>INT_MAX\<close> or \<^verbatim>\<open>INT_MIN\<close> on overflow.
\<close>

definition isspace :: "char \<Rightarrow> bool" where
  "isspace c = (c = CHR '' '' \<or> ((9::nat) \<le> of_char c \<and> (of_char c :: nat) \<le> 13))"

definition isdigit :: "char \<Rightarrow> bool" where
  "isdigit c = ((48::nat) \<le> of_char c \<and> (of_char c :: nat) \<le> 57)"

fun atoi_digits :: "int \<Rightarrow> string \<Rightarrow> int" where
  "atoi_digits acc [] = acc"
| "atoi_digits acc (c # cs) =
     (if isdigit c then atoi_digits (acc * 10 + (int (of_char c) - 48)) cs else acc)"

definition atoi :: "string \<Rightarrow> int" where
  "atoi s =
     (let s1 = dropWhile isspace s;
          v = (case s1 of
                 [] \<Rightarrow> 0
               | c # cs \<Rightarrow>
                   if c = CHR ''-'' then - atoi_digits 0 cs
                   else if c = CHR ''+'' then atoi_digits 0 cs
                   else atoi_digits 0 s1)
      in max (- 2147483648) (min 2147483647 v))"

text \<open>The cast \<^verbatim>\<open>(anyID)\<close> of an \<^verbatim>\<open>int\<close>: the low 16 bits.\<close>

definition to_anyID :: "int \<Rightarrow> anyID" where
  "to_anyID i = word_of_int i"

section \<open>Collaborators\<close>

text \<open>
  The three thresholds of \<^verbatim>\<open>Globals\<close> (globals.h is not part of plugin.cpp): parameters of
  the loop.
\<close>

record Globals =
  onlineStateTransmissionThreshold :: real
  locationTransmissionThreshold :: real
  distanceTransmissionThreshold :: real

text \<open>
  The pure functions of gw2api that the loop calls and that are not part of plugin.cpp:
  \<^verbatim>\<open>Vector3D::toVector2D\<close>, \<^verbatim>\<open>Vector2D::getDistance\<close>, and
  \<^verbatim>\<open>Gw2Position(p, Gw2Position::Mumble, mapId, map_rect, continent_rect).toContinentPosition().position\<close>.
  They are parameters of the loop.
\<close>

record Gw2Api =
  toVector2D :: "Vector3D \<Rightarrow> Vector2D"
  getDistance :: "Vector2D \<Rightarrow> Vector2D \<Rightarrow> real"
  toContinentPosition :: "Vector3D \<Rightarrow> int \<Rightarrow> Rect \<Rightarrow> Rect \<Rightarrow> Vector2D"

text \<open>
  What one iteration of the loop reads from outside. Each call of \<^verbatim>\<open>time(NULL)\<close> is a reading
  of its own (lines 410, 456, 491, 503, 507 and 518), and so is each of the two calls of
  \<^verbatim>\<open>Gw2Api::getMap\<close> (lines 434 and 468): a lookup may take long, and its answer may change.
  A lookup that returns \<^verbatim>\<open>false\<close> is \<open>None\<close>.
\<close>

record World =
  isActive :: bool
  isGW2 :: bool
  getIdentity :: MumbleIdentity
  getAvatarPosition :: Vector3D
  time_linkCheck :: time_t
  time_identity :: time_t
  time_position :: time_t
  time_offline :: time_t
  time_unlinkCheck :: time_t
  time_transmit :: time_t
  getMap_identity :: "int \<Rightarrow> MapEntry option"
  getMap_position :: "int \<Rightarrow> MapEntry option"
  getWorldNames :: "(int \<rightharpoonup> string) option"
  getClosestWaypoint :: "Vector2D \<Rightarrow> int \<Rightarrow> PointOfInterestEntry option"
  getCurrentServerConnectionHandlerID :: uint64

section \<open>The polling loop (mumbleLinkCheckLoop)\<close>

text \<open>The local variables of the loop that live across iterations (lines 394-402).\<close>

record LoopState =
  lastTransmissionTime :: time_t
  lastOffline :: time_t
  linked :: bool
  prevIsOnline :: bool
  prevIdentity :: MumbleIdentity
  prevAvatarPosition :: Vector3D
  prevDistancePosition :: Vector2D

text \<open>
  Lines 394-402. The default-constructed identity and avatar position come from
  constructors of gw2api and are parameters; \<^verbatim>\<open>lastMumbleLinkUpdate\<close> is never read.
\<close>

definition initialLoopState :: "MumbleIdentity \<Rightarrow> Vector3D \<Rightarrow> LoopState" where
  "initialLoopState identity0 position0 =
     \<lparr>lastTransmissionTime = 0, lastOffline = 0, linked = False, prevIsOnline = False,
      prevIdentity = identity0, prevAvatarPosition = position0,
      prevDistancePosition = Vector2D_default\<rparr>"

text \<open>Lines 420-459: the block run when the identity differs from the previous one.\<close>

definition identityBlock :: "Globals \<Rightarrow> World \<Rightarrow> time_t \<Rightarrow> MumbleIdentity \<Rightarrow> Gw2Info \<Rightarrow> Gw2Info \<times> bool" where
  "identityBlock G w lastTx newIdentity info =
     (let info1 = info\<lparr>characterName := id_name newIdentity,
                       profession := id_profession newIdentity,
                       mapId := id_map_id newIdentity,
                       worldId := id_world_id newIdentity,
                       teamColorId := id_team_color_id newIdentity,
                       commander := id_commander newIdentity\<rparr>;
          info2 = (case getMap_identity w (mapId info1) of
                     Some m \<Rightarrow>
                       info1\<lparr>mapName := map_name m, regionId := region_id m,
                             regionName := region_name m, continentId := continent_id m,
                             continentName := continent_name m\<rparr>
                   | None \<Rightarrow>
                       info1\<lparr>mapName := ''Map '' @ to_string (mapId info1), regionId := 0,
                             regionName := ''Unknown region'', continentId := 0,
                             continentName := ''Unknown continent''\<rparr>);
          info3 = (case getWorldNames w of
                     Some world_names \<Rightarrow>
                       (case world_names (worldId info2) of
                          Some n \<Rightarrow> info2\<lparr>worldName := n\<rparr>
                        | None \<Rightarrow> info2\<lparr>worldName := ''World '' @ to_string (worldId info2)\<rparr>)
                   | None \<Rightarrow> info2\<lparr>worldName := ''World '' @ to_string (worldId info2)\<rparr>)
      in (info3, locationTransmissionThreshold G \<le> difftime (time_identity w) lastTx))"

text \<open>
  Lines 463-496: the block run when the avatar position differs from the previous one. It
  takes and returns the record, the flag \<^verbatim>\<open>updated\<close> and \<^verbatim>\<open>prevDistancePosition\<close>.
\<close>

definition positionBlock :: "Globals \<Rightarrow> Gw2Api \<Rightarrow> World \<Rightarrow> time_t \<Rightarrow> Vector3D \<Rightarrow>
    Gw2Info \<times> bool \<times> Vector2D \<Rightarrow> Gw2Info \<times> bool \<times> Vector2D" where
  "positionBlock G A w lastTx newAvatarPosition st =
     (case st of (info, updated, prevDistance) \<Rightarrow>
      let info1 = (case getMap_position w (mapId info) of
                     Some m \<Rightarrow>
                       info\<lparr>characterContinentPosition :=
                              toContinentPosition A newAvatarPosition (mapId info)
                                (map_rect m) (continent_rect m)\<rparr>
                   | None \<Rightarrow> info);
          info2 = (case getClosestWaypoint w (characterContinentPosition info1) (mapId info1) of
                     Some waypoint \<Rightarrow>
                       info1\<lparr>waypointId := poi_id waypoint,
                             waypointName :=
                               (if poi_name waypoint \<noteq> [] then poi_name waypoint
                                else ''Waypoint '' @ to_string (poi_id waypoint)),
                             waypointContinentPosition := coord waypoint\<rparr>
                   | None \<Rightarrow>
                       info1\<lparr>waypointId := 0, waypointName := [],
                             waypointContinentPosition := Vector2D_default\<rparr>)
      in if locationTransmissionThreshold G \<le> difftime (time_position w) lastTx \<and>
            distanceTransmissionThreshold G \<le>
              getDistance A (toVector2D A newAvatarPosition) prevDistance
         then (info2, True, toVector2D A newAvatarPosition)
         else (info2, updated, prevDistance))"

text \<open>
  Lines 405-520: one iteration of the loop, on the loop's variables and the shared record
  \<^verbatim>\<open>gw2Info\<close>. It returns both and the transmission of the iteration, if any.
\<close>

definition loopIteration :: "Globals \<Rightarrow> Gw2Api \<Rightarrow> World \<Rightarrow> LoopState \<times> Gw2Info \<Rightarrow>
    (LoopState \<times> Gw2Info) \<times> Effect list" where
  "loopIteration G A w st =
     (case st of (s, info) \<Rightarrow>
      let newIsOnline = (isActive w \<and> isGW2 w);
          (s1, info1, updated) =
            (if newIsOnline then
               let linked1 = (if \<not> prevIsOnline s \<and>
                                  onlineStateTransmissionThreshold G \<le>
                                    difftime (time_linkCheck w) (lastOffline s)
                               then True else linked s);
                   newIdentity = getIdentity w;
                   newAvatarPosition = getAvatarPosition w;
                   r1 = (if newIdentity \<noteq> prevIdentity s
                         then identityBlock G w (lastTransmissionTime s) newIdentity info
                         else (info, False));
                   r2 = (if newAvatarPosition \<noteq> prevAvatarPosition s
                         then positionBlock G A w (lastTransmissionTime s) newAvatarPosition
                                (fst r1, snd r1, prevDistancePosition s)
                         else (fst r1, snd r1, prevDistancePosition s))
               in (s\<lparr>linked := linked1, lastOffline := 0, prevIdentity := newIdentity,
                     prevAvatarPosition := newAvatarPosition,
                     prevDistancePosition := snd (snd r2)\<rparr>,
                   fst r2, fst (snd r2))
             else
               let lastOffline1 = (if prevIsOnline s then time_offline w else lastOffline s)
               in if linked s \<and>
                     onlineStateTransmissionThreshold G \<le>
                       difftime (time_unlinkCheck w) lastOffline1
                  then (s\<lparr>lastOffline := lastOffline1, linked := False\<rparr>, clear, True)
                  else (s\<lparr>lastOffline := lastOffline1\<rparr>, info, False));
          s2 = s1\<lparr>prevIsOnline := newIsOnline\<rparr>
      in if updated
         then ((s2\<lparr>lastTransmissionTime := time_transmit w\<rparr>, info1),
               [sendGW2Info (getCurrentServerConnectionHandlerID w) info1
                  PluginCommandTarget_SERVER None])
         else ((s2, info1), []))"

text \<open>
  The loop of line 404 over the iterations that run before \<^verbatim>\<open>threadStopRequested\<close> is seen:
  one \<open>World\<close> for each.
\<close>

fun mumbleLinkCheckLoop :: "Globals \<Rightarrow> Gw2Api \<Rightarrow> World list \<Rightarrow> LoopState \<times> Gw2Info \<Rightarrow>
    (LoopState \<times> Gw2Info) \<times> Effect list" where
  "mumbleLinkCheckLoop G A [] st = (st, [])"
| "mumbleLinkCheckLoop G A (w # ws) st =
     (let (st1, out1) = loopIteration G A w st;
          (st2, out2) = mumbleLinkCheckLoop G A ws st1
      in (st2, out1 @ out2))"

section \<open>The callbacks of the host\<close>

text \<open>
  The state shared by the callbacks: the local record, the container of the records received
  from other clients, and the item last shown in the info panel (lines 39-43).
\<close>

record PluginState =
  gw2Info :: Gw2Info
  gw2RemoteInfoContainer :: "uint64 \<times> anyID \<rightharpoonup> Gw2RemoteInfo"
  infoDataType :: int
  infoDataId :: uint64

text \<open>
  The container \<^verbatim>\<open>Gw2RemoteInfoContainer\<close> is not part of plugin.cpp. By the spec it is a mapping
  from the session and the participant to the record, with at most one record for each, and
  its three operations that the callbacks call follow.
\<close>

text \<open>
  Modelled from the spec: \<^verbatim>\<open>removeAllRemoteGW2InfoRecords\<close> (gw2info, not part of plugin.cpp),
  the spec's \<open>removeAll(sessionId)\<close>, which "evicts every entry for a session".
\<close>

definition removeAllRemoteGW2InfoRecords ::
    "uint64 \<Rightarrow> (uint64 \<times> anyID \<rightharpoonup> Gw2RemoteInfo) \<Rightarrow> (uint64 \<times> anyID \<rightharpoonup> Gw2RemoteInfo)" where
  "removeAllRemoteGW2InfoRecords serverConnectionHandlerID c =
     (\<lambda>k. if fst k = serverConnectionHandlerID then None else c k)"

text \<open>
  Modelled from the spec: \<^verbatim>\<open>removeRemoteGW2InfoRecord\<close> (gw2info, not part of plugin.cpp), the
  spec's \<open>remove(sessionId, participantId)\<close>, which "evicts one entry; no-op if absent".
\<close>

definition removeRemoteGW2InfoRecord ::
    "uint64 \<Rightarrow> anyID \<Rightarrow> (uint64 \<times> anyID \<rightharpoonup> Gw2RemoteInfo) \<Rightarrow> (uint64 \<times> anyID \<rightharpoonup> Gw2RemoteInfo)" where
  "removeRemoteGW2InfoRecord serverConnectionHandlerID clientID c =
     c((serverConnectionHandlerID, clientID) := None)"

text \<open>
  Modelled from the spec: \<^verbatim>\<open>updateRemoteGW2Info\<close> (gw2info, not part of plugin.cpp), the spec's
  \<open>upsert(sessionId, participantId, record)\<close>, which "replaces or inserts".
\<close>

definition updateRemoteGW2Info ::
    "Gw2RemoteInfo \<Rightarrow> (uint64 \<times> anyID \<rightharpoonup> Gw2RemoteInfo) \<Rightarrow> (uint64 \<times> anyID \<rightharpoonup> Gw2RemoteInfo)" where
  "updateRemoteGW2Info r c =
     c((remoteServerConnectionHandlerID r, remoteClientID r) \<mapsto> r)"

text \<open>
  The two functions of the command codec that \<^verbatim>\<open>ts3plugin_onPluginCommandEvent\<close> calls and that
  are not part of plugin.cpp: \<^verbatim>\<open>Commands::parseCommand\<close>, which gives the kind and the
  parameters of a command, and the decoding of the JSON text in the constructor of
  \<^verbatim>\<open>Gw2RemoteInfo\<close>. They are parameters of the callback.
\<close>

record Commands =
  parseCommand :: "string \<Rightarrow> CommandType \<times> string list"
  decodeGw2Info :: "string \<Rightarrow> Gw2Info"

text \<open>Lines 280-292. The argument \<^verbatim>\<open>errorNumber\<close> is not read.\<close>

definition ts3plugin_onConnectStatusChangeEvent ::
    "uint64 \<Rightarrow> ConnectStatus \<Rightarrow> PluginState \<Rightarrow> PluginState \<times> Effect list" where
  "ts3plugin_onConnectStatusChangeEvent serverConnectionHandlerID newStatus ps =
     (case newStatus of
        STATUS_DISCONNECTED \<Rightarrow>
          (ps\<lparr>gw2RemoteInfoContainer :=
                removeAllRemoteGW2InfoRecords serverConnectionHandlerID
                  (gw2RemoteInfoContainer ps)\<rparr>, [])
      | STATUS_CONNECTION_ESTABLISHED \<Rightarrow> (ps, [checkForUpdates])
      | STATUS_OTHER _ \<Rightarrow> (ps, []))"

text \<open>Lines 294-297. Only the connection and the client are read.\<close>

definition ts3plugin_onClientKickFromServerEvent ::
    "uint64 \<Rightarrow> anyID \<Rightarrow> PluginState \<Rightarrow> PluginState \<times> Effect list" where
  "ts3plugin_onClientKickFromServerEvent serverConnectionHandlerID clientID ps =
     (ps\<lparr>gw2RemoteInfoContainer :=
           removeRemoteGW2InfoRecord serverConnectionHandlerID clientID
             (gw2RemoteInfoContainer ps)\<rparr>, [])"

text \<open>Lines 311-314.\<close>

definition ts3plugin_onServerStopEvent ::
    "uint64 \<Rightarrow> PluginState \<Rightarrow> PluginState \<times> Effect list" where
  "ts3plugin_onServerStopEvent serverConnectionHandlerID ps =
     (ps\<lparr>gw2RemoteInfoContainer :=
           removeAllRemoteGW2InfoRecords serverConnectionHandlerID
             (gw2RemoteInfoContainer ps)\<rparr>, [])"

text \<open>
  Lines 357-359; \<open>current\<close> is what \<^verbatim>\<open>ts3Functions.getCurrentServerConnectionHandlerID()\<close>
  returns.
\<close>

definition updateInfoPanel :: "uint64 \<Rightarrow> PluginState \<Rightarrow> Effect list" where
  "updateInfoPanel current ps =
     (if 0 < infoDataType ps \<and> 0 < infoDataId ps
      then [requestInfoUpdate current (infoDataType ps) (infoDataId ps)] else [])"

text \<open>
  Lines 318-355. The result is \<open>Inl\<close> when an exception leaves the callback. The argument
  \<^verbatim>\<open>pluginName\<close> is not read.
\<close>

definition ts3plugin_onPluginCommandEvent ::
    "Commands \<Rightarrow> uint64 \<Rightarrow> uint64 \<Rightarrow> string \<Rightarrow> PluginState \<Rightarrow> error + PluginState \<times> Effect list" where
  "ts3plugin_onPluginCommandEvent C current serverConnectionHandlerID pluginCommand ps =
     (let (commandType, commandParameters) = parseCommand C pluginCommand in
      case commandType of
        CMD_NONE \<Rightarrow> Inr (ps, [])
      | CMD_GW2INFO \<Rightarrow>
          if length commandParameters \<noteq> 2 then Inr (ps, [])
          else
            (case vector_at commandParameters 0 of
               Inl e \<Rightarrow> Inl e
             | Inr p0 \<Rightarrow>
                 (case vector_at commandParameters 1 of
                    Inl e \<Rightarrow> Inl e
                  | Inr jsonString \<Rightarrow>
                      let clientID = to_anyID (atoi p0);
                          gw2RemoteInfo =
                            \<lparr>remoteInfo = decodeGw2Info C jsonString,
                             remoteServerConnectionHandlerID = serverConnectionHandlerID,
                             remoteClientID = clientID\<rparr>;
                          ps1 = ps\<lparr>gw2RemoteInfoContainer :=
                                     updateRemoteGW2Info gw2RemoteInfo
                                       (gw2RemoteInfoContainer ps)\<rparr>
                      in Inr (ps1, updateInfoPanel current ps1)))
      | CMD_REQUESTGW2INFO \<Rightarrow>
          if length commandParameters \<noteq> 1 then Inr (ps, [])
          else
            (case vector_at commandParameters 0 of
               Inl e \<Rightarrow> Inl e
             | Inr p0 \<Rightarrow>
                 let clientID = to_anyID (atoi p0)
                 in Inr (ps, [sendGW2Info serverConnectionHandlerID (gw2Info ps)
                                PluginCommandTarget_CLIENT (Some clientID)]))
      | CMD_OTHER _ \<Rightarrow> Inr (ps, []))"

section \<open>What an iteration leaves behind\<close>

text \<open>The loop's variables, the record and the transmissions after one iteration.\<close>

definition stateAfter :: "Globals \<Rightarrow> Gw2Api \<Rightarrow> World \<Rightarrow> LoopState \<times> Gw2Info \<Rightarrow> LoopState" where
  "stateAfter G A w st = fst (fst (loopIteration G A w st))"

definition infoAfter :: "Globals \<Rightarrow> Gw2Api \<Rightarrow> World \<Rightarrow> LoopState \<times> Gw2Info \<Rightarrow> Gw2Info" where
  "infoAfter G A w st = snd (fst (loopIteration G A w st))"

definition sent :: "Globals \<Rightarrow> Gw2Api \<Rightarrow> World \<Rightarrow> LoopState \<times> Gw2Info \<Rightarrow> Effect list" where
  "sent G A w st = snd (loopIteration G A w st)"

text \<open>
  The conditions of lines 419 and 456, and of lines 462, 491 and 492, under which the loop
  sets \<^verbatim>\<open>updated\<close> for a new identity and for a new position.
\<close>

definition identityTrigger :: "Globals \<Rightarrow> World \<Rightarrow> LoopState \<Rightarrow> bool" where
  "identityTrigger G w s =
     (getIdentity w \<noteq> prevIdentity s \<and>
      locationTransmissionThreshold G \<le> difftime (time_identity w) (lastTransmissionTime s))"

definition positionTrigger :: "Globals \<Rightarrow> Gw2Api \<Rightarrow> World \<Rightarrow> LoopState \<Rightarrow> bool" where
  "positionTrigger G A w s =
     (getAvatarPosition w \<noteq> prevAvatarPosition s \<and>
      locationTransmissionThreshold G \<le> difftime (time_position w) (lastTransmissionTime s) \<and>
      distanceTransmissionThreshold G \<le>
        getDistance A (toVector2D A (getAvatarPosition w)) (prevDistancePosition s))"

text \<open>
  A clock that never runs backwards. Within an iteration the readings follow the order of
  the lines that take them: 410, 456, 491 and 518 when the game is linked, and 503, 507 and
  518 when it is not. \<open>monotoneClock t ws\<close> says so for every iteration of \<open>ws\<close>, with the
  first reading of each iteration not before the last one of the iteration before it, and
  not before \<open>t\<close> for the first iteration.
\<close>

definition firstReading :: "World \<Rightarrow> time_t" where
  "firstReading w = (if isActive w \<and> isGW2 w then time_linkCheck w else time_offline w)"

definition clockOrdered :: "World \<Rightarrow> bool" where
  "clockOrdered w =
     (if isActive w \<and> isGW2 w
      then time_linkCheck w \<le> time_identity w \<and> time_identity w \<le> time_position w \<and>
           time_position w \<le> time_transmit w
      else time_offline w \<le> time_unlinkCheck w \<and> time_unlinkCheck w \<le> time_transmit w)"

fun monotoneClock :: "time_t \<Rightarrow> World list \<Rightarrow> bool" where
  "monotoneClock t [] = True"
| "monotoneClock t (w # ws) =
     (t \<le> firstReading w \<and> clockOrdered w \<and> monotoneClock (time_transmit w) ws)"

text \<open>
  What holds of the loop's variables between iterations when the clock, now at \<open>t\<close>, never
  runs backwards: the clock has reached the window, and a tracker that is not linked saw the
  game away in the previous iteration and either remembers no offline time or remembers one
  that is at least the window old.
\<close>

definition linkInvariant :: "Globals \<Rightarrow> time_t \<Rightarrow> LoopState \<Rightarrow> bool" where
  "linkInvariant G t s =
     (onlineStateTransmissionThreshold G \<le> real_of_int t \<and>
      (linked s \<or>
       (\<not> prevIsOnline s \<and>
        (lastOffline s = 0 \<or>
         onlineStateTransmissionThreshold G \<le> difftime t (lastOffline s)))))"

section \<open>A worked configuration\<close>

text \<open>
  Concrete collaborators on which the theorems below are run: a debounce window of 5
  seconds, a time threshold of 1 second and a distance threshold of 2 units.
\<close>

definition exampleGlobals :: Globals where
  "exampleGlobals = \<lparr>onlineStateTransmissionThreshold = 5, locationTransmissionThreshold = 1,
     distanceTransmissionThreshold = 2\<rparr>"

text \<open>
  Modelled from the spec: \<^verbatim>\<open>Vector3D::toVector2D\<close> (gw2api, not part of plugin.cpp), the
  spec's "projection from 3D to 2D (drop one axis)"; the axis dropped here is the height.
\<close>

definition dropHeight :: "Vector3D \<Rightarrow> Vector2D" where
  "dropHeight p = \<lparr>v2_x = v3_x p, v2_y = v3_z p\<rparr>"

text \<open>
  Modelled from the spec: \<^verbatim>\<open>Vector2D::getDistance\<close> (gw2api, not part of plugin.cpp), the
  spec's "Euclidean distance in 2D".
\<close>

definition euclid :: "Vector2D \<Rightarrow> Vector2D \<Rightarrow> real" where
  "euclid a b =
     sqrt ((v2_x a - v2_x b) * (v2_x a - v2_x b) + (v2_y a - v2_y b) * (v2_y a - v2_y b))"

text \<open>
  Modelled from the spec: \<^verbatim>\<open>Gw2Position::toContinentPosition\<close> (gw2api, not part of
  plugin.cpp), the spec's "affine map from a rectangle in source space" to "the
  corresponding rectangle in continent units; scale-x = continentRect.width/mapRect.width,
  scale-y analogous, with the vertical axis inverted", here with a unit scale of 1. Where a
  rectangle has extent 0 the quotient is the one of HOL, 0; the C++ division gives an
  infinity or a NaN there.
\<close>

definition affine :: "Vector3D \<Rightarrow> int \<Rightarrow> Rect \<Rightarrow> Rect \<Rightarrow> Vector2D" where
  "affine p m mapRect continentRect =
     \<lparr>v2_x = v2_x (fst continentRect) +
              (v3_x p - v2_x (fst mapRect)) / (v2_x (snd mapRect) - v2_x (fst mapRect)) *
                (v2_x (snd continentRect) - v2_x (fst continentRect)),
      v2_y = v2_y (fst continentRect) +
              (1 - (v3_z p - v2_y (fst mapRect)) / (v2_y (snd mapRect) - v2_y (fst mapRect))) *
                (v2_y (snd continentRect) - v2_y (fst continentRect))\<rparr>"

text \<open>The geometry of the worked configuration.\<close>

definition exampleApi :: Gw2Api where
  "exampleApi = \<lparr>toVector2D = dropHeight, getDistance = euclid, toContinentPosition = affine\<rparr>"

definition exampleIdentity :: MumbleIdentity where
  "exampleIdentity = \<lparr>id_name = ''Ada'', id_profession = 3, id_map_id = 15, id_world_id = 2001,
     id_team_color_id = 0, id_commander = False\<rparr>"

definition otherIdentity :: MumbleIdentity where
  "otherIdentity = \<lparr>id_name = ''Bea'', id_profession = 7, id_map_id = 18, id_world_id = 2002,
     id_team_color_id = 9, id_commander = True\<rparr>"

text \<open>An avatar position on the ground, \<open>x\<close> units along the first axis.\<close>

definition position :: "real \<Rightarrow> Vector3D" where
  "position x = \<lparr>v3_x = x, v3_y = 0, v3_z = 0\<rparr>"

text \<open>A map 4 units wide that covers 2 units of its continent.\<close>

definition exampleMap :: MapEntry where
  "exampleMap = \<lparr>map_name = ''Queensdale'', region_id = 4, region_name = ''Kryta'',
     continent_id = 1, continent_name = ''Tyria'',
     map_rect = (\<lparr>v2_x = 0, v2_y = 0\<rparr>, \<lparr>v2_x = 4, v2_y = 4\<rparr>),
     continent_rect = (\<lparr>v2_x = 0, v2_y = 0\<rparr>, \<lparr>v2_x = 2, v2_y = 2\<rparr>)\<rparr>"

definition noMap :: "int \<Rightarrow> MapEntry option" where
  "noMap m = None"

definition exampleMaps :: "int \<Rightarrow> MapEntry option" where
  "exampleMaps m = (if m = 15 then Some exampleMap else None)"

text \<open>A map source whose map 15 has a rectangle of width 0.\<close>

definition degenerateMap :: MapEntry where
  "degenerateMap = exampleMap\<lparr>map_rect := (\<lparr>v2_x = 0, v2_y = 0\<rparr>, \<lparr>v2_x = 0, v2_y = 4\<rparr>)\<rparr>"

definition degenerateMaps :: "int \<Rightarrow> MapEntry option" where
  "degenerateMaps m = (if m = 15 then Some degenerateMap else None)"

definition noWaypoint :: "Vector2D \<Rightarrow> int \<Rightarrow> PointOfInterestEntry option" where
  "noWaypoint p m = None"

text \<open>
  The readings of one iteration: the game linked or not, every clock reading \<open>t\<close>, a map
  source, an identity and an avatar position; no world names and no waypoint.
\<close>

definition exampleWorld ::
    "bool \<Rightarrow> time_t \<Rightarrow> (int \<Rightarrow> MapEntry option) \<Rightarrow> MumbleIdentity \<Rightarrow> Vector3D \<Rightarrow> World" where
  "exampleWorld online t maps ident p =
     \<lparr>isActive = online, isGW2 = online, getIdentity = ident, getAvatarPosition = p,
      time_linkCheck = t, time_identity = t, time_position = t, time_offline = t,
      time_unlinkCheck = t, time_transmit = t,
      getMap_identity = maps, getMap_position = maps, getWorldNames = None,
      getClosestWaypoint = noWaypoint, getCurrentServerConnectionHandlerID = 1\<rparr>"

text \<open>The loop at its start, with an empty identity and an empty record.\<close>

definition defaultIdentity :: MumbleIdentity where
  "defaultIdentity = \<lparr>id_name = [], id_profession = 0, id_map_id = 0, id_world_id = 0,
     id_team_color_id = 0, id_commander = False\<rparr>"

definition exampleStart :: "LoopState \<times> Gw2Info" where
  "exampleStart = (initialLoopState defaultIdentity (position 0), clear)"

text \<open>
  The loop's variables in the middle of a run: the last transmission at \<open>lastTx\<close>, the
  offline time \<open>lastOff\<close>, the two flags, and the avatar last seen at \<open>position x\<close> with the
  baseline of the distance check at \<open>position b\<close>.
\<close>

definition exampleState :: "time_t \<Rightarrow> time_t \<Rightarrow> bool \<Rightarrow> bool \<Rightarrow> real \<Rightarrow> real \<Rightarrow> LoopState" where
  "exampleState lastTx lastOff isLinked wasOnline x b =
     \<lparr>lastTransmissionTime = lastTx, lastOffline = lastOff, linked = isLinked,
      prevIsOnline = wasOnline, prevIdentity = exampleIdentity,
      prevAvatarPosition = position x, prevDistancePosition = dropHeight (position b)\<rparr>"

text \<open>The record of the example character on the example map.\<close>

definition exampleInfo :: Gw2Info where
  "exampleInfo = clear\<lparr>characterName := ''Ada'', profession := 3, mapId := 15,
     mapName := ''Queensdale'', worldId := 2001, worldName := ''World 2001'',
     characterContinentPosition := \<lparr>v2_x = 5, v2_y = 2\<rparr>\<rparr>"

text \<open>
  An iteration in which the character \<open>exampleIdentity\<close> is seen for the first time, with the
  map source and a list of world names at hand, and the loop's variables before it.
\<close>

definition arrivalWorld :: World where
  "arrivalWorld =
     (exampleWorld True 1001 exampleMaps exampleIdentity (position 10))
       \<lparr>getWorldNames := Some [2001 \<mapsto> ''Gandara'']\<rparr>"

definition arrivalState :: LoopState where
  "arrivalState = (exampleState 1000 0 True True 10 10)\<lparr>prevIdentity := otherIdentity\<rparr>"

text \<open>A record of another client, a state of the callbacks that holds it, and a codec.\<close>

definition exampleRemote :: "uint64 \<Rightarrow> anyID \<Rightarrow> Gw2RemoteInfo" where
  "exampleRemote h c =
     \<lparr>remoteInfo = clear, remoteServerConnectionHandlerID = h, remoteClientID = c\<rparr>"

definition examplePluginState :: PluginState where
  "examplePluginState =
     \<lparr>gw2Info = clear\<lparr>characterName := ''Ada'', mapId := 15\<rparr>,
      gw2RemoteInfoContainer =
        [(1, 7) \<mapsto> exampleRemote 1 7, (1, 8) \<mapsto> exampleRemote 1 8, (2, 7) \<mapsto> exampleRemote 2 7],
      infoDataType = 0, infoDataId = 0\<rparr>"

text \<open>
  A codec in which the first character of a command is its kind and each following
  character is a parameter.
\<close>

definition exampleCommands :: Commands where
  "exampleCommands =
     \<lparr>parseCommand = (\<lambda>s. case s of
          [] \<Rightarrow> (CMD_NONE, [])
        | c # cs \<Rightarrow>
            ((if c = CHR ''i'' then CMD_GW2INFO
              else if c = CHR ''r'' then CMD_REQUESTGW2INFO else CMD_NONE),
             map (\<lambda>d. [d]) cs)),
      decodeGw2Info = (\<lambda>s. clear\<lparr>characterName := s\<rparr>)\<rparr>"

section \<open>Lemmas on one iteration\<close>

text \<open>The two branches of the iteration, and what each block does to the record and the flags.\<close>

lemma euclid_same_y: "v2_y a = v2_y b \<Longrightarrow> euclid a b = \<bar>v2_x a - v2_x b\<bar>"
  by (simp add: euclid_def)

lemmas example_defs = exampleGlobals_def exampleApi_def exampleIdentity_def position_def
  exampleMap_def noMap_def exampleMaps_def noWaypoint_def exampleWorld_def exampleStart_def
  initialLoopState_def dropHeight_def affine_def difftime_def Vector2D_default_def otherIdentity_def

lemma loopIteration_offline:
  assumes "\<not> (isActive w \<and> isGW2 w)"
  shows "loopIteration G A w (s, info) =
     (let lastOffline1 = (if prevIsOnline s then time_offline w else lastOffline s)
      in if linked s \<and> onlineStateTransmissionThreshold G \<le> difftime (time_unlinkCheck w) lastOffline1
         then ((s\<lparr>lastOffline := lastOffline1, linked := False, prevIsOnline := False,
                  lastTransmissionTime := time_transmit w\<rparr>, clear),
               [sendGW2Info (getCurrentServerConnectionHandlerID w) clear PluginCommandTarget_SERVER None])
         else ((s\<lparr>lastOffline := lastOffline1, prevIsOnline := False\<rparr>, info), []))"
proof -
  from assms have off: "(isActive w \<and> isGW2 w) = False" by simp
  show ?thesis unfolding loopIteration_def by (simp add: off Let_def)
qed

lemma loopIteration_online:
  assumes "isActive w \<and> isGW2 w"
  shows "loopIteration G A w (s, info) =
     (let r1 = (if getIdentity w \<noteq> prevIdentity s
                then identityBlock G w (lastTransmissionTime s) (getIdentity w) info
                else (info, False));
          r2 = (if getAvatarPosition w \<noteq> prevAvatarPosition s
                then positionBlock G A w (lastTransmissionTime s) (getAvatarPosition w)
                       (fst r1, snd r1, prevDistancePosition s)
                else (fst r1, snd r1, prevDistancePosition s));
          s2 = s\<lparr>linked := (linked s \<or> (\<not> prevIsOnline s \<and>
                     onlineStateTransmissionThreshold G \<le> difftime (time_linkCheck w) (lastOffline s))),
                 lastOffline := 0, prevIdentity := getIdentity w,
                 prevAvatarPosition := getAvatarPosition w,
                 prevDistancePosition := snd (snd r2), prevIsOnline := True\<rparr>
      in if fst (snd r2)
         then ((s2\<lparr>lastTransmissionTime := time_transmit w\<rparr>, fst r2),
               [sendGW2Info (getCurrentServerConnectionHandlerID w) (fst r2) PluginCommandTarget_SERVER None])
         else ((s2, fst r2), []))"
proof -
  from assms have on: "(isActive w \<and> isGW2 w) = True" by simp
  show ?thesis unfolding loopIteration_def by (simp add: on Let_def)
qed

lemma identityBlock_flag:
  "snd (identityBlock G w lastTx ident info) =
     (locationTransmissionThreshold G \<le> difftime (time_identity w) lastTx)"
  by (simp add: identityBlock_def Let_def)

lemma positionBlock_flag:
  "fst (snd (positionBlock G A w lastTx p (info, u, d))) =
     (u \<or> (locationTransmissionThreshold G \<le> difftime (time_position w) lastTx \<and>
           distanceTransmissionThreshold G \<le> getDistance A (toVector2D A p) d))"
  by (auto simp add: positionBlock_def Let_def)

lemma positionBlock_baseline:
  "snd (snd (positionBlock G A w lastTx p (info, u, d))) =
     (if locationTransmissionThreshold G \<le> difftime (time_position w) lastTx \<and>
           distanceTransmissionThreshold G \<le> getDistance A (toVector2D A p) d
      then toVector2D A p else d)"
  by (simp add: positionBlock_def Let_def)

lemma updated_online:
  assumes "isActive w \<and> isGW2 w"
  shows "sent G A w (s, info) =
     (if identityTrigger G w s \<or> positionTrigger G A w s
      then [sendGW2Info (getCurrentServerConnectionHandlerID w) (infoAfter G A w (s, info))
              PluginCommandTarget_SERVER None]
      else [])"
  unfolding sent_def infoAfter_def identityTrigger_def positionTrigger_def
  by (simp add: loopIteration_online[OF assms] Let_def identityBlock_flag positionBlock_flag)

lemma baseline_online:
  assumes "isActive w \<and> isGW2 w"
  shows "prevDistancePosition (stateAfter G A w (s, info)) =
     (if positionTrigger G A w s then toVector2D A (getAvatarPosition w)
      else prevDistancePosition s)"
  unfolding stateAfter_def positionTrigger_def
  by (simp add: loopIteration_online[OF assms] Let_def positionBlock_baseline)

lemma baseline_offline:
  assumes "\<not> (isActive w \<and> isGW2 w)"
  shows "prevDistancePosition (stateAfter G A w (s, info)) = prevDistancePosition s"
  unfolding stateAfter_def
  by (simp add: loopIteration_offline[OF assms] Let_def)

lemma identityBlock_identity:
  "characterName (fst (identityBlock G w lastTx ident info)) = id_name ident"
  "profession (fst (identityBlock G w lastTx ident info)) = id_profession ident"
  "mapId (fst (identityBlock G w lastTx ident info)) = id_map_id ident"
  "worldId (fst (identityBlock G w lastTx ident info)) = id_world_id ident"
  "teamColorId (fst (identityBlock G w lastTx ident info)) = id_team_color_id ident"
  "commander (fst (identityBlock G w lastTx ident info)) = id_commander ident"
  by (simp_all add: identityBlock_def Let_def split: option.splits)

lemma identityBlock_map_found:
  assumes "getMap_identity w (id_map_id ident) = Some m"
  shows "mapName (fst (identityBlock G w lastTx ident info)) = map_name m"
    "regionId (fst (identityBlock G w lastTx ident info)) = region_id m"
    "regionName (fst (identityBlock G w lastTx ident info)) = region_name m"
    "continentId (fst (identityBlock G w lastTx ident info)) = continent_id m"
    "continentName (fst (identityBlock G w lastTx ident info)) = continent_name m"
  using assms by (simp_all add: identityBlock_def Let_def split: option.splits)

lemma identityBlock_map_missing:
  assumes "getMap_identity w (id_map_id ident) = None"
  shows "mapName (fst (identityBlock G w lastTx ident info)) = ''Map '' @ to_string (id_map_id ident)"
    "regionId (fst (identityBlock G w lastTx ident info)) = 0"
    "regionName (fst (identityBlock G w lastTx ident info)) = ''Unknown region''"
    "continentId (fst (identityBlock G w lastTx ident info)) = 0"
    "continentName (fst (identityBlock G w lastTx ident info)) = ''Unknown continent''"
  using assms by (simp_all add: identityBlock_def Let_def split: option.splits)

lemma identityBlock_world:
  "worldName (fst (identityBlock G w lastTx ident info)) =
     (case getWorldNames w of
        Some world_names \<Rightarrow>
          (case world_names (id_world_id ident) of
             Some n \<Rightarrow> n
           | None \<Rightarrow> ''World '' @ to_string (id_world_id ident))
      | None \<Rightarrow> ''World '' @ to_string (id_world_id ident))"
  by (simp add: identityBlock_def Let_def split: option.splits)

lemma identityBlock_position:
  "characterContinentPosition (fst (identityBlock G w lastTx ident info)) =
     characterContinentPosition info"
  by (simp add: identityBlock_def Let_def split: option.splits)

lemma positionBlock_keeps:
  "characterName (fst (positionBlock G A w lastTx p (info, u, d))) = characterName info"
  "profession (fst (positionBlock G A w lastTx p (info, u, d))) = profession info"
  "mapId (fst (positionBlock G A w lastTx p (info, u, d))) = mapId info"
  "mapName (fst (positionBlock G A w lastTx p (info, u, d))) = mapName info"
  "regionId (fst (positionBlock G A w lastTx p (info, u, d))) = regionId info"
  "regionName (fst (positionBlock G A w lastTx p (info, u, d))) = regionName info"
  "continentId (fst (positionBlock G A w lastTx p (info, u, d))) = continentId info"
  "continentName (fst (positionBlock G A w lastTx p (info, u, d))) = continentName info"
  "worldId (fst (positionBlock G A w lastTx p (info, u, d))) = worldId info"
  "worldName (fst (positionBlock G A w lastTx p (info, u, d))) = worldName info"
  "teamColorId (fst (positionBlock G A w lastTx p (info, u, d))) = teamColorId info"
  "commander (fst (positionBlock G A w lastTx p (info, u, d))) = commander info"
  by (simp_all add: positionBlock_def Let_def split: option.splits)

lemma positionBlock_map_missing:
  assumes "getMap_position w (mapId info) = None"
  shows "characterContinentPosition (fst (positionBlock G A w lastTx p (info, u, d))) =
     characterContinentPosition info"
  using assms by (simp add: positionBlock_def Let_def split: option.splits)

lemma infoAfter_online:
  assumes "isActive w \<and> isGW2 w"
  shows "infoAfter G A w (s, info) =
     (let i1 = (if getIdentity w \<noteq> prevIdentity s
                then fst (identityBlock G w (lastTransmissionTime s) (getIdentity w) info)
                else info)
      in if getAvatarPosition w \<noteq> prevAvatarPosition s
         then fst (positionBlock G A w (lastTransmissionTime s) (getAvatarPosition w)
                (i1, identityTrigger G w s, prevDistancePosition s))
         else i1)"
  unfolding infoAfter_def identityTrigger_def
  by (simp add: loopIteration_online[OF assms] Let_def identityBlock_flag)


lemmas example_defs2 = example_defs defaultIdentity_def exampleState_def exampleInfo_def clear_def
  digits.simps digit_char_def to_string_def

lemma linked_offline:
  assumes "\<not> (isActive w \<and> isGW2 w)"
  shows "linked (stateAfter G A w (s, info)) =
     (linked s \<and> \<not> onlineStateTransmissionThreshold G \<le>
        difftime (time_unlinkCheck w) (if prevIsOnline s then time_offline w else lastOffline s))"
  unfolding stateAfter_def by (auto simp add: loopIteration_offline[OF assms] Let_def)

lemma linked_online:
  assumes "isActive w \<and> isGW2 w"
  shows "linked (stateAfter G A w (s, info)) =
     (linked s \<or> (\<not> prevIsOnline s \<and>
        onlineStateTransmissionThreshold G \<le> difftime (time_linkCheck w) (lastOffline s)))"
  unfolding stateAfter_def by (simp add: loopIteration_online[OF assms] Let_def)

lemma baseline_iteration:
  "prevDistancePosition (stateAfter G A w (s, info)) =
     (if isActive w \<and> isGW2 w \<and> positionTrigger G A w s
      then toVector2D A (getAvatarPosition w) else prevDistancePosition s)"
proof (cases "isActive w \<and> isGW2 w")
  case True
  then show ?thesis by (simp add: baseline_online[OF True])
next
  case False
  then show ?thesis by (auto simp add: baseline_offline[OF False])
qed

lemma silent_iteration_baseline:
  assumes "sent G A w (s, info) = []"
  shows "prevDistancePosition (stateAfter G A w (s, info)) = prevDistancePosition s"
proof (cases "isActive w \<and> isGW2 w")
  case True
  with assms have "\<not> positionTrigger G A w s"
    by (auto simp add: updated_online[OF True] split: if_splits)
  then show ?thesis by (simp add: baseline_iteration)
next
  case False
  then show ?thesis by (simp add: baseline_offline[OF False])
qed

lemma silent_run_baseline:
  "snd (mumbleLinkCheckLoop G A ws st) = [] \<Longrightarrow>
   prevDistancePosition (fst (fst (mumbleLinkCheckLoop G A ws st))) = prevDistancePosition (fst st)"
proof (induction ws arbitrary: st)
  case Nil
  then show ?case by simp
next
  case (Cons w ws)
  obtain st1 out1 where it: "loopIteration G A w st = (st1, out1)" by (cases "loopIteration G A w st")
  obtain st2 out2 where run: "mumbleLinkCheckLoop G A ws st1 = (st2, out2)"
    by (cases "mumbleLinkCheckLoop G A ws st1")
  from Cons.prems it run have "out1 = []" and "out2 = []" by simp_all
  from \<open>out2 = []\<close> run Cons.IH[of st1]
  have a: "prevDistancePosition (fst st2) = prevDistancePosition (fst st1)" by simp
  obtain s info where st: "st = (s, info)" by (cases st)
  from \<open>out1 = []\<close> it st have "sent G A w (s, info) = []" by (simp add: sent_def)
  from silent_iteration_baseline[OF this] it st
  have b: "prevDistancePosition (fst st1) = prevDistancePosition (fst st)"
    by (simp add: stateAfter_def)
  from a b it run show ?case by simp
qed

lemma infoAfter_identity_fields:
  assumes on: "isActive w \<and> isGW2 w" and ch: "getIdentity w \<noteq> prevIdentity s"
  shows "characterName (infoAfter G A w (s, info)) = id_name (getIdentity w)"
    "profession (infoAfter G A w (s, info)) = id_profession (getIdentity w)"
    "mapId (infoAfter G A w (s, info)) = id_map_id (getIdentity w)"
    "worldId (infoAfter G A w (s, info)) = id_world_id (getIdentity w)"
    "teamColorId (infoAfter G A w (s, info)) = id_team_color_id (getIdentity w)"
    "commander (infoAfter G A w (s, info)) = id_commander (getIdentity w)"
  using ch
  by (simp_all add: infoAfter_online[OF on] Let_def positionBlock_keeps identityBlock_identity)

lemma infoAfter_map_found:
  assumes on: "isActive w \<and> isGW2 w" and ch: "getIdentity w \<noteq> prevIdentity s"
    and m: "getMap_identity w (id_map_id (getIdentity w)) = Some m"
  shows "mapName (infoAfter G A w (s, info)) = map_name m \<and>
    regionId (infoAfter G A w (s, info)) = region_id m \<and>
    regionName (infoAfter G A w (s, info)) = region_name m \<and>
    continentId (infoAfter G A w (s, info)) = continent_id m \<and>
    continentName (infoAfter G A w (s, info)) = continent_name m"
  using ch
  by (simp add: infoAfter_online[OF on] Let_def positionBlock_keeps identityBlock_map_found[OF m])

lemma infoAfter_map_missing:
  assumes on: "isActive w \<and> isGW2 w" and ch: "getIdentity w \<noteq> prevIdentity s"
    and m: "getMap_identity w (id_map_id (getIdentity w)) = None"
  shows "mapName (infoAfter G A w (s, info)) = ''Map '' @ to_string (id_map_id (getIdentity w)) \<and>
    regionId (infoAfter G A w (s, info)) = 0 \<and>
    regionName (infoAfter G A w (s, info)) = ''Unknown region'' \<and>
    continentId (infoAfter G A w (s, info)) = 0 \<and>
    continentName (infoAfter G A w (s, info)) = ''Unknown continent''"
  using ch
  by (simp add: infoAfter_online[OF on] Let_def positionBlock_keeps identityBlock_map_missing[OF m])

lemma infoAfter_world:
  assumes on: "isActive w \<and> isGW2 w" and ch: "getIdentity w \<noteq> prevIdentity s"
  shows "worldName (infoAfter G A w (s, info)) =
     (case getWorldNames w of
        Some world_names \<Rightarrow>
          (case world_names (id_world_id (getIdentity w)) of
             Some n \<Rightarrow> n
           | None \<Rightarrow> ''World '' @ to_string (id_world_id (getIdentity w)))
      | None \<Rightarrow> ''World '' @ to_string (id_world_id (getIdentity w)))"
  using ch
  by (simp add: infoAfter_online[OF on] Let_def positionBlock_keeps identityBlock_world)

lemma state_online:
  assumes on: "isActive w \<and> isGW2 w"
  shows "prevIdentity (stateAfter G A w (s, info)) = getIdentity w"
    "prevAvatarPosition (stateAfter G A w (s, info)) = getAvatarPosition w"
    "prevIsOnline (stateAfter G A w (s, info))"
    "lastOffline (stateAfter G A w (s, info)) = 0"
  unfolding stateAfter_def by (simp_all add: loopIteration_online[OF on] Let_def)

lemma removeAll_session:
  "removeAllRemoteGW2InfoRecords h c (h, cl) = None"
  "h' \<noteq> h \<Longrightarrow> removeAllRemoteGW2InfoRecords h c (h', cl) = c (h', cl)"
  by (simp_all add: removeAllRemoteGW2InfoRecords_def)

lemma remove_one:
  "removeRemoteGW2InfoRecord h cl c (h, cl) = None"
  "k \<noteq> (h, cl) \<Longrightarrow> removeRemoteGW2InfoRecord h cl c k = c k"
  by (simp_all add: removeRemoteGW2InfoRecord_def)

lemma digit_char_value: "d < 10 \<Longrightarrow> (of_char (digit_char d) :: nat) = 48 + d"
proof -
  assume "d < 10"
  then have "d \<in> {0, 1, 2, 3, 4, 5, 6, 7, 8, 9}" by auto
  then show ?thesis by (auto simp add: digit_char_def)
qed

lemma digit_char_isdigit: "d < 10 \<Longrightarrow> isdigit (digit_char d)"
  by (simp add: isdigit_def digit_char_value)

lemma digits_isdigit: "\<forall>c \<in> set (digits n). isdigit c"
proof (induction n rule: digits.induct)
  case (1 n)
  then show ?case by (subst digits.simps) (auto simp add: digit_char_isdigit)
qed

lemma atoi_digits_append:
  "\<forall>c \<in> set ds. isdigit c \<Longrightarrow> atoi_digits acc (ds @ rest) = atoi_digits (atoi_digits acc ds) rest"
  by (induction ds arbitrary: acc) auto

lemma atoi_digits_digits: "atoi_digits 0 (digits n) = int n"
proof (induction n rule: digits.induct)
  case (1 n)
  show ?case
  proof (cases "n < 10")
    case True
    then show ?thesis
      by (subst digits.simps) (simp add: digit_char_isdigit digit_char_value)
  next
    case False
    with 1 have ih: "atoi_digits 0 (digits (n div 10)) = int (n div 10)" by simp
    have d: "n mod 10 < 10" by simp
    from False have "digits n = digits (n div 10) @ [digit_char (n mod 10)]"
      by (subst digits.simps) simp
    then have "atoi_digits 0 (digits n) =
        atoi_digits (int (n div 10)) [digit_char (n mod 10)]"
      by (simp add: atoi_digits_append[OF digits_isdigit] ih)
    also have "\<dots> = int (n div 10) * 10 + int (n mod 10)"
      by (simp add: digit_char_isdigit[OF d] digit_char_value[OF d])
    also have "\<dots> = int n" by (simp add: zmod_int zdiv_int)
    finally show ?thesis .
  qed
qed

lemma digits_first:
  "\<exists>c cs. digits n = c # cs \<and> isdigit c"
proof -
  have "digits n \<noteq> []" by (subst digits.simps) simp
  then obtain c cs where e: "digits n = c # cs" by (cases "digits n") auto
  with digits_isdigit[of n] have "isdigit c" by simp
  with e show ?thesis by blast
qed

lemma isdigit_plain: "isdigit c \<Longrightarrow> \<not> isspace c \<and> c \<noteq> CHR ''-'' \<and> c \<noteq> CHR ''+''"
  by (auto simp add: isdigit_def isspace_def)

lemma atoi_digits_text: "atoi (digits n) = max (- 2147483648) (min 2147483647 (int n))"
proof -
  from digits_first[of n] obtain c cs where e: "digits n = c # cs" and d: "isdigit c" by blast
  from isdigit_plain[OF d] e have "atoi (digits n) =
      max (- 2147483648) (min 2147483647 (atoi_digits 0 (digits n)))"
    by (simp add: atoi_def Let_def)
  then show ?thesis by (simp add: atoi_digits_digits)
qed

lemma anyID_text: "to_anyID (atoi (digits (unat (c :: anyID)))) = c"
proof -
  have hi: "uint c < 65536" using uint_lt2p[of c] by simp
  have "0 \<le> uint c" by simp
  then have lo: "- 2147483648 \<le> uint c" by linarith
  from hi lo have "atoi (digits (unat c)) = int (unat c)"
    by (simp add: atoi_digits_text min_def max_def)
  then show ?thesis by (simp add: to_anyID_def)
qed

lemma linkInvariant_start:
  "onlineStateTransmissionThreshold G \<le> real_of_int t \<Longrightarrow>
   linkInvariant G t (initialLoopState identity0 position0)"
  by (simp add: linkInvariant_def initialLoopState_def)

lemma linkInvariant_step:
  assumes inv: "linkInvariant G t s" and first: "t \<le> firstReading w" and ord: "clockOrdered w"
  shows "linkInvariant G (time_transmit w) (stateAfter G A w (s, info)) \<and>
         (isActive w \<and> isGW2 w \<longrightarrow> linked (stateAfter G A w (s, info)))"
proof (cases "isActive w \<and> isGW2 w")
  case True
  from True first ord have t1: "t \<le> time_linkCheck w" and t2: "time_linkCheck w \<le> time_transmit w"
    by (simp_all add: firstReading_def clockOrdered_def)
  from inv t1 have l: "linked (stateAfter G A w (s, info))"
    by (auto simp add: linked_online[OF True] linkInvariant_def difftime_def)
  from inv t1 t2 have "onlineStateTransmissionThreshold G \<le> real_of_int (time_transmit w)"
    by (simp add: linkInvariant_def)
  with l True show ?thesis by (simp add: linkInvariant_def)
next
  case False
  from False first ord have t1: "t \<le> time_offline w" and t2: "time_offline w \<le> time_unlinkCheck w"
    and t3: "time_unlinkCheck w \<le> time_transmit w"
    by (auto simp add: firstReading_def clockOrdered_def)
  have st: "prevIsOnline (stateAfter G A w (s, info)) = False"
    "lastOffline (stateAfter G A w (s, info)) = (if prevIsOnline s then time_offline w else lastOffline s)"
    unfolding stateAfter_def by (simp_all add: loopIteration_offline[OF False] Let_def)
  from inv t1 t2 t3 have "linkInvariant G (time_transmit w) (stateAfter G A w (s, info))"
    unfolding linkInvariant_def st linked_offline[OF False]
    by (auto simp add: difftime_def)
  with False show ?thesis by blast
qed

lemma loop_Cons_state:
  "fst (mumbleLinkCheckLoop G A (w # ws) (s, info)) =
   fst (mumbleLinkCheckLoop G A ws (stateAfter G A w (s, info), infoAfter G A w (s, info)))"
  by (simp add: stateAfter_def infoAfter_def split: prod.splits)

lemma linked_after_online_run:
  "monotoneClock t ws \<Longrightarrow> linkInvariant G t s \<Longrightarrow> ws \<noteq> [] \<Longrightarrow>
   isActive (last ws) \<and> isGW2 (last ws) \<Longrightarrow>
   linked (fst (fst (mumbleLinkCheckLoop G A ws (s, info))))"
proof (induction ws arbitrary: t s info)
  case Nil
  then show ?case by simp
next
  case (Cons w ws)
  from Cons.prems(1) have first: "t \<le> firstReading w" and ord: "clockOrdered w"
    and rest: "monotoneClock (time_transmit w) ws" by simp_all
  note step = linkInvariant_step[OF Cons.prems(2) first ord, of A info]
  show ?case
  proof (cases "ws = []")
    case True
    with Cons.prems(4) step show ?thesis by (simp add: stateAfter_def split: prod.splits)
  next
    case False
    with Cons.prems(4) have l: "isActive (last ws) \<and> isGW2 (last ws)" by simp
    from step have i: "linkInvariant G (time_transmit w) (stateAfter G A w (s, info))" by simp
    from Cons.IH[OF rest i False l, of "infoAfter G A w (s, info)"] show ?thesis
      by (simp only: loop_Cons_state)
  qed
qed

lemma positionBlock_map_found:
  assumes "getMap_position w (mapId info) = Some m"
  shows "characterContinentPosition (fst (positionBlock G A w lastTx p (info, u, d))) =
     toContinentPosition A p (mapId info) (map_rect m) (continent_rect m)"
  using assms by (simp add: positionBlock_def Let_def split: option.splits)

section \<open>The online and offline transitions\<close>

text \<open>
  C1, as amended. An iteration changes the tracker from not linked to linked exactly when the
  game is linked in this iteration, was not in the previous one, and the time since the
  remembered offline time (0 when none is remembered, as at the loop's start) is at least
  the window \<open>onlineStateTransmissionThreshold\<close>. No time of continuous true samples is asked
  for. On a run from the loop's start whose clock never runs backwards and has reached the
  window, the tracker is linked after every iteration in which the game is linked: a first
  true sample after a false period shorter than the window finds the tracker linked still,
  or links it at once.
\<close>

theorem C1_online_transition:
  "((\<not> linked s \<and> linked (stateAfter G A w (s, info))) =
      (\<not> linked s \<and> isActive w \<and> isGW2 w \<and> \<not> prevIsOnline s \<and>
       onlineStateTransmissionThreshold G \<le> difftime (time_linkCheck w) (lastOffline s))) \<and>
   (monotoneClock t ws \<and> onlineStateTransmissionThreshold G \<le> real_of_int t \<and>
    ws \<noteq> [] \<and> isActive (last ws) \<and> isGW2 (last ws) \<longrightarrow>
      linked (fst (fst (mumbleLinkCheckLoop G A ws
        (initialLoopState identity0 position0, info0)))))"
proof -
  have a: "(\<not> linked s \<and> linked (stateAfter G A w (s, info))) =
      (\<not> linked s \<and> isActive w \<and> isGW2 w \<and> \<not> prevIsOnline s \<and>
       onlineStateTransmissionThreshold G \<le> difftime (time_linkCheck w) (lastOffline s))"
  proof (cases "isActive w \<and> isGW2 w")
    case True
    then show ?thesis by (auto simp add: linked_online[OF True])
  next
    case False
    then show ?thesis by (auto simp add: linked_offline[OF False])
  qed
  have b: "monotoneClock t ws \<and> onlineStateTransmissionThreshold G \<le> real_of_int t \<and>
    ws \<noteq> [] \<and> isActive (last ws) \<and> isGW2 (last ws) \<longrightarrow>
      linked (fst (fst (mumbleLinkCheckLoop G A ws
        (initialLoopState identity0 position0, info0))))"
    using linked_after_online_run[of t ws G "initialLoopState identity0 position0" A info0]
      linkInvariant_start[of G t identity0 position0]
    by blast
  from a b show ?thesis by (rule conjI)
qed

text \<open>
  The window is 5 seconds. From the loop's start the game is linked at 1000, away at 1001
  and back at 1003: the tracker is linked after the run.
\<close>

theorem C1_online_transition_witness:
  "monotoneClock 1000
     [exampleWorld True 1000 noMap exampleIdentity (position 0),
      exampleWorld False 1001 noMap exampleIdentity (position 0),
      exampleWorld True 1003 noMap exampleIdentity (position 0)] \<and>
   onlineStateTransmissionThreshold exampleGlobals \<le> real_of_int 1000 \<and>
   isActive (exampleWorld True 1003 noMap exampleIdentity (position 0)) \<and>
   isGW2 (exampleWorld True 1003 noMap exampleIdentity (position 0)) \<and>
   linked (fst (fst (mumbleLinkCheckLoop exampleGlobals exampleApi
     [exampleWorld True 1000 noMap exampleIdentity (position 0),
      exampleWorld False 1001 noMap exampleIdentity (position 0),
      exampleWorld True 1003 noMap exampleIdentity (position 0)] exampleStart)))"
  using C1_online_transition [of _ exampleGlobals exampleApi _ _ 1000
      "[exampleWorld True 1000 noMap exampleIdentity (position 0),
        exampleWorld False 1001 noMap exampleIdentity (position 0),
        exampleWorld True 1003 noMap exampleIdentity (position 0)]"
      defaultIdentity "position 0" clear]
  by (simp add: exampleStart_def exampleWorld_def exampleGlobals_def firstReading_def
      clockOrdered_def)

text \<open>
  C1 as stated fails. With a window of 5 seconds the game is linked at 1000, away from 1001
  and, the tracker having gone offline at 1007, back at 1008: the tracker is linked by this
  one true sample, without 5 seconds of continuous true samples. And from the loop's start
  the game is away at 1000 and at 1003 and linked at 1003: the tracker is linked by the
  first true sample after a false period of 3 seconds.
\<close>

theorem C1_counterexample:
  "onlineStateTransmissionThreshold exampleGlobals = 5 \<and>
   \<not> linked (fst (fst (mumbleLinkCheckLoop exampleGlobals exampleApi
     [exampleWorld True 1000 noMap exampleIdentity (position 0),
      exampleWorld False 1001 noMap exampleIdentity (position 0),
      exampleWorld False 1007 noMap exampleIdentity (position 0)] exampleStart))) \<and>
   linked (fst (fst (mumbleLinkCheckLoop exampleGlobals exampleApi
     [exampleWorld True 1000 noMap exampleIdentity (position 0),
      exampleWorld False 1001 noMap exampleIdentity (position 0),
      exampleWorld False 1007 noMap exampleIdentity (position 0),
      exampleWorld True 1008 noMap exampleIdentity (position 0)] exampleStart))) \<and>
   \<not> linked (fst (fst (mumbleLinkCheckLoop exampleGlobals exampleApi
     [exampleWorld False 1000 noMap exampleIdentity (position 0),
      exampleWorld False 1003 noMap exampleIdentity (position 0)] exampleStart))) \<and>
   linked (fst (fst (mumbleLinkCheckLoop exampleGlobals exampleApi
     [exampleWorld False 1000 noMap exampleIdentity (position 0),
      exampleWorld False 1003 noMap exampleIdentity (position 0),
      exampleWorld True 1003 noMap exampleIdentity (position 0)] exampleStart)))"
  by (simp add: loopIteration_def identityBlock_def Let_def example_defs2)

text \<open>
  C2. In an iteration in which the game is not linked, the offline time is set to the clock
  reading of line 503 when the game was linked in the previous iteration, and is kept
  otherwise. If the tracker is linked and the time since that offline time is at least the
  window, the tracker becomes not linked, the record is cleared (every number zero, every
  string empty) and the iteration sends exactly one transmission, of the cleared record, to
  the whole server.
\<close>

theorem C2_offline_transition:
  assumes "\<not> (isActive w \<and> isGW2 w)"
  shows "(prevIsOnline s \<longrightarrow> lastOffline (stateAfter G A w (s, info)) = time_offline w) \<and>
    (\<not> prevIsOnline s \<longrightarrow> lastOffline (stateAfter G A w (s, info)) = lastOffline s) \<and>
    (linked s \<and> onlineStateTransmissionThreshold G \<le>
        difftime (time_unlinkCheck w) (lastOffline (stateAfter G A w (s, info))) \<longrightarrow>
       \<not> linked (stateAfter G A w (s, info)) \<and>
       infoAfter G A w (s, info) =
         \<lparr>characterName = [], profession = 0, mapId = 0, mapName = [], regionId = 0,
          regionName = [], continentId = 0, continentName = [], worldId = 0, worldName = [],
          teamColorId = 0, commander = False,
          characterContinentPosition = \<lparr>v2_x = 0, v2_y = 0\<rparr>,
          waypointId = 0, waypointName = [],
          waypointContinentPosition = \<lparr>v2_x = 0, v2_y = 0\<rparr>\<rparr> \<and>
       sent G A w (s, info) =
         [sendGW2Info (getCurrentServerConnectionHandlerID w) (infoAfter G A w (s, info))
            PluginCommandTarget_SERVER None])"
  unfolding stateAfter_def infoAfter_def sent_def
  by (simp add: loopIteration_offline[OF assms] Let_def clear_def Vector2D_default_def)

text \<open>
  The tracker is linked, the game went away at 1001 and is still away at 1007 with a window
  of 5 seconds: the tracker goes offline and sends the cleared record once.
\<close>

theorem C2_offline_transition_witness:
  "\<not> (isActive (exampleWorld False 1007 noMap exampleIdentity (position 0)) \<and>
       isGW2 (exampleWorld False 1007 noMap exampleIdentity (position 0))) \<and>
   lastOffline (stateAfter exampleGlobals exampleApi
       (exampleWorld False 1007 noMap exampleIdentity (position 0))
       (exampleState 1000 1001 True False 0 0, exampleInfo)) = 1001 \<and>
   \<not> linked (stateAfter exampleGlobals exampleApi
       (exampleWorld False 1007 noMap exampleIdentity (position 0))
       (exampleState 1000 1001 True False 0 0, exampleInfo)) \<and>
   sent exampleGlobals exampleApi
       (exampleWorld False 1007 noMap exampleIdentity (position 0))
       (exampleState 1000 1001 True False 0 0, exampleInfo) =
     [sendGW2Info 1 clear PluginCommandTarget_SERVER None]"
  using C2_offline_transition [of "exampleWorld False 1007 noMap exampleIdentity (position 0)"
      "exampleState 1000 1001 True False 0 0" exampleGlobals exampleApi exampleInfo]
  by (simp add: exampleWorld_def exampleState_def exampleGlobals_def difftime_def clear_def
      Vector2D_default_def)

section \<open>The gate on transmissions for a new position\<close>

text \<open>
  C3, as amended. The displacement that gates a transmission for a new position is measured
  between the avatar position of the feed, projected to two dimensions, and the baseline
  \<^verbatim>\<open>prevDistancePosition\<close>, in the units of the feed; the continent position of the record is
  not compared. In an iteration with the game linked, a new position whose time since the
  last transmission and whose displacement both reach their thresholds sends exactly one
  transmission; with an unchanged identity nothing is sent otherwise. So with a distance
  threshold of 2, an avatar position 1 unit from the baseline sends nothing whatever the
  time, and a new avatar position 3 units from it, once the time threshold has passed, sends
  exactly one transmission.
\<close>

theorem C3_position_gate:
  assumes "isActive w \<and> isGW2 w"
  shows "(positionTrigger G A w s \<longrightarrow>
            sent G A w (s, info) =
              [sendGW2Info (getCurrentServerConnectionHandlerID w) (infoAfter G A w (s, info))
                 PluginCommandTarget_SERVER None]) \<and>
         (getIdentity w = prevIdentity s \<and> \<not> positionTrigger G A w s \<longrightarrow>
            sent G A w (s, info) = []) \<and>
         (getIdentity w = prevIdentity s \<and> distanceTransmissionThreshold G = 2 \<and>
          getDistance A (toVector2D A (getAvatarPosition w)) (prevDistancePosition s) = 1 \<longrightarrow>
            sent G A w (s, info) = []) \<and>
         (getAvatarPosition w \<noteq> prevAvatarPosition s \<and>
          locationTransmissionThreshold G \<le> difftime (time_position w) (lastTransmissionTime s) \<and>
          distanceTransmissionThreshold G = 2 \<and>
          getDistance A (toVector2D A (getAvatarPosition w)) (prevDistancePosition s) = 3 \<longrightarrow>
            sent G A w (s, info) =
              [sendGW2Info (getCurrentServerConnectionHandlerID w) (infoAfter G A w (s, info))
                 PluginCommandTarget_SERVER None])"
  by (simp add: updated_online[OF assms] positionTrigger_def identityTrigger_def)

text \<open>
  The baseline is at 10 and the last transmission at 1000. An avatar at 11 sends nothing,
  even at 2000; an avatar at 13 at 1001 sends one transmission.
\<close>

theorem C3_position_gate_witness:
  "isActive (exampleWorld True 2000 exampleMaps exampleIdentity (position 11)) \<and>
   isGW2 (exampleWorld True 2000 exampleMaps exampleIdentity (position 11)) \<and>
   isActive (exampleWorld True 1001 exampleMaps exampleIdentity (position 13)) \<and>
   isGW2 (exampleWorld True 1001 exampleMaps exampleIdentity (position 13)) \<and>
   distanceTransmissionThreshold exampleGlobals = 2 \<and>
   getDistance exampleApi (toVector2D exampleApi (position 11)) (dropHeight (position 10)) = 1 \<and>
   getDistance exampleApi (toVector2D exampleApi (position 13)) (dropHeight (position 10)) = 3 \<and>
   sent exampleGlobals exampleApi (exampleWorld True 2000 exampleMaps exampleIdentity (position 11))
     (exampleState 1000 0 True True 10 10, exampleInfo) = [] \<and>
   sent exampleGlobals exampleApi (exampleWorld True 1001 exampleMaps exampleIdentity (position 13))
     (exampleState 1000 0 True True 10 10, exampleInfo) =
     [sendGW2Info 1
        (infoAfter exampleGlobals exampleApi
           (exampleWorld True 1001 exampleMaps exampleIdentity (position 13))
           (exampleState 1000 0 True True 10 10, exampleInfo))
        PluginCommandTarget_SERVER None]"
  using C3_position_gate [of "exampleWorld True 2000 exampleMaps exampleIdentity (position 11)"
      exampleGlobals exampleApi "exampleState 1000 0 True True 10 10" exampleInfo]
    C3_position_gate [of "exampleWorld True 1001 exampleMaps exampleIdentity (position 13)"
      exampleGlobals exampleApi "exampleState 1000 0 True True 10 10" exampleInfo]
  by (simp add: exampleWorld_def exampleState_def exampleGlobals_def exampleApi_def difftime_def
      position_def dropHeight_def euclid_same_y)

text \<open>
  C3 as stated fails. On a map 4 units wide that covers 2 units of its continent, the avatar
  is at 10 and then at 12. Both iterations transmit, with a distance threshold of 2, and the
  two continent positions transmitted, (5, 2) and (6, 2), are 1 unit apart.
\<close>

theorem C3_counterexample:
  "distanceTransmissionThreshold exampleGlobals = 2 \<and>
   sent exampleGlobals exampleApi
       (exampleWorld True 1000 exampleMaps exampleIdentity (position 10)) exampleStart =
     [sendGW2Info 1
        (infoAfter exampleGlobals exampleApi
           (exampleWorld True 1000 exampleMaps exampleIdentity (position 10)) exampleStart)
        PluginCommandTarget_SERVER None] \<and>
   characterContinentPosition (infoAfter exampleGlobals exampleApi
       (exampleWorld True 1000 exampleMaps exampleIdentity (position 10)) exampleStart) =
     \<lparr>v2_x = 5, v2_y = 2\<rparr> \<and>
   sent exampleGlobals exampleApi
       (exampleWorld True 1001 exampleMaps exampleIdentity (position 12))
       (fst (loopIteration exampleGlobals exampleApi
          (exampleWorld True 1000 exampleMaps exampleIdentity (position 10)) exampleStart)) =
     [sendGW2Info 1
        (infoAfter exampleGlobals exampleApi
           (exampleWorld True 1001 exampleMaps exampleIdentity (position 12))
           (fst (loopIteration exampleGlobals exampleApi
              (exampleWorld True 1000 exampleMaps exampleIdentity (position 10)) exampleStart)))
        PluginCommandTarget_SERVER None] \<and>
   characterContinentPosition (infoAfter exampleGlobals exampleApi
       (exampleWorld True 1001 exampleMaps exampleIdentity (position 12))
       (fst (loopIteration exampleGlobals exampleApi
          (exampleWorld True 1000 exampleMaps exampleIdentity (position 10)) exampleStart))) =
     \<lparr>v2_x = 6, v2_y = 2\<rparr> \<and>
   euclid \<lparr>v2_x = 5, v2_y = 2\<rparr> \<lparr>v2_x = 6, v2_y = 2\<rparr> = 1"
  by (simp add: sent_def infoAfter_def loopIteration_def identityBlock_def positionBlock_def
      Let_def example_defs2 euclid_same_y)

text \<open>
  C10. After an iteration the baseline \<^verbatim>\<open>prevDistancePosition\<close> is the projected avatar position
  when the game is linked and the new position reaches both thresholds, and that iteration
  sends a transmission; in every other iteration the baseline is unchanged. A run of
  iterations that sends nothing therefore ends with the baseline it started with, however
  far the avatar went.
\<close>

theorem C10_baseline:
  "prevDistancePosition (stateAfter G A w (s, info)) =
     (if isActive w \<and> isGW2 w \<and> positionTrigger G A w s
      then toVector2D A (getAvatarPosition w) else prevDistancePosition s) \<and>
   (isActive w \<and> isGW2 w \<and> positionTrigger G A w s \<longrightarrow>
      sent G A w (s, info) =
        [sendGW2Info (getCurrentServerConnectionHandlerID w) (infoAfter G A w (s, info))
           PluginCommandTarget_SERVER None]) \<and>
   (snd (mumbleLinkCheckLoop G A ws (s, info)) = [] \<longrightarrow>
      prevDistancePosition (fst (fst (mumbleLinkCheckLoop G A ws (s, info)))) =
        prevDistancePosition s)"
proof -
  have "isActive w \<and> isGW2 w \<and> positionTrigger G A w s \<longrightarrow>
      sent G A w (s, info) =
        [sendGW2Info (getCurrentServerConnectionHandlerID w) (infoAfter G A w (s, info))
           PluginCommandTarget_SERVER None]"
  proof
    assume h: "isActive w \<and> isGW2 w \<and> positionTrigger G A w s"
    then have on: "isActive w \<and> isGW2 w" by simp
    from h show "sent G A w (s, info) =
        [sendGW2Info (getCurrentServerConnectionHandlerID w) (infoAfter G A w (s, info))
           PluginCommandTarget_SERVER None]"
      by (simp add: updated_online[OF on])
  qed
  moreover have "snd (mumbleLinkCheckLoop G A ws (s, info)) = [] \<longrightarrow>
      prevDistancePosition (fst (fst (mumbleLinkCheckLoop G A ws (s, info)))) =
        prevDistancePosition s"
    using silent_run_baseline[of G A ws "(s, info)"] by simp
  ultimately show ?thesis by (simp add: baseline_iteration)
qed

text \<open>
  From a baseline at 10 the avatar goes to 11 and to 11.5: nothing is sent and the baseline
  stays at 10. It then goes to 12, only half a unit further but 2 units from the baseline:
  the position triggers, and the baseline moves to 12.
\<close>

theorem C10_baseline_witness:
  "snd (mumbleLinkCheckLoop exampleGlobals exampleApi
     [exampleWorld True 1001 exampleMaps exampleIdentity (position 11),
      exampleWorld True 1002 exampleMaps exampleIdentity (position 11.5)]
     (exampleState 1000 0 True True 10 10, exampleInfo)) = [] \<and>
   prevDistancePosition (fst (fst (mumbleLinkCheckLoop exampleGlobals exampleApi
     [exampleWorld True 1001 exampleMaps exampleIdentity (position 11),
      exampleWorld True 1002 exampleMaps exampleIdentity (position 11.5)]
     (exampleState 1000 0 True True 10 10, exampleInfo)))) = dropHeight (position 10) \<and>
   isActive (exampleWorld True 1003 exampleMaps exampleIdentity (position 12)) \<and>
   isGW2 (exampleWorld True 1003 exampleMaps exampleIdentity (position 12)) \<and>
   positionTrigger exampleGlobals exampleApi
     (exampleWorld True 1003 exampleMaps exampleIdentity (position 12))
     (exampleState 1000 0 True True 11.5 10) \<and>
   prevDistancePosition (stateAfter exampleGlobals exampleApi
     (exampleWorld True 1003 exampleMaps exampleIdentity (position 12))
     (exampleState 1000 0 True True 11.5 10, exampleInfo)) = dropHeight (position 12)"
  using C10_baseline [of exampleGlobals exampleApi
      "exampleWorld True 1003 exampleMaps exampleIdentity (position 12)"
      "exampleState 1000 0 True True 11.5 10" exampleInfo "[]"]
    C10_baseline [of exampleGlobals exampleApi
      "exampleWorld True 1001 exampleMaps exampleIdentity (position 11)"
      "exampleState 1000 0 True True 10 10" exampleInfo
      "[exampleWorld True 1001 exampleMaps exampleIdentity (position 11),
        exampleWorld True 1002 exampleMaps exampleIdentity (position 11.5)]"]
  by (simp add: positionTrigger_def loopIteration_def identityBlock_def positionBlock_def
      Let_def example_defs2 euclid_same_y)

section \<open>Identity and position updates\<close>

text \<open>
  C5. In an iteration with the game linked and an identity that differs from the previous
  one, the record takes the name, profession, map, world, team colour and commander flag of
  the new identity, the names of the map that the map source returns and the world name that
  the list of world names holds. The block for the new identity sets \<^verbatim>\<open>updated\<close> if and only if
  the time since the last transmission, read at line 456, is at least
  \<open>locationTransmissionThreshold\<close>, whatever the positions are. The iteration then sends
  exactly one transmission; below the threshold it sends one only by the rule for a new
  position. When the position is unchanged, or the clock readings of lines 456 and 491
  agree, the iteration transmits if and only if that time is at least the threshold.
\<close>

theorem C5_identity_change:
  assumes on: "isActive w \<and> isGW2 w" and ch: "getIdentity w \<noteq> prevIdentity s"
  shows "characterName (infoAfter G A w (s, info)) = id_name (getIdentity w) \<and>
    profession (infoAfter G A w (s, info)) = id_profession (getIdentity w) \<and>
    mapId (infoAfter G A w (s, info)) = id_map_id (getIdentity w) \<and>
    worldId (infoAfter G A w (s, info)) = id_world_id (getIdentity w) \<and>
    teamColorId (infoAfter G A w (s, info)) = id_team_color_id (getIdentity w) \<and>
    commander (infoAfter G A w (s, info)) = id_commander (getIdentity w) \<and>
    (\<forall>m. getMap_identity w (id_map_id (getIdentity w)) = Some m \<longrightarrow>
       mapName (infoAfter G A w (s, info)) = map_name m \<and>
       regionId (infoAfter G A w (s, info)) = region_id m \<and>
       regionName (infoAfter G A w (s, info)) = region_name m \<and>
       continentId (infoAfter G A w (s, info)) = continent_id m \<and>
       continentName (infoAfter G A w (s, info)) = continent_name m) \<and>
    (\<forall>world_names n. getWorldNames w = Some world_names \<and>
       world_names (id_world_id (getIdentity w)) = Some n \<longrightarrow>
       worldName (infoAfter G A w (s, info)) = n) \<and>
    snd (identityBlock G w (lastTransmissionTime s) (getIdentity w) info) =
      (locationTransmissionThreshold G \<le> difftime (time_identity w) (lastTransmissionTime s)) \<and>
    ((sent G A w (s, info) \<noteq> []) =
       (locationTransmissionThreshold G \<le> difftime (time_identity w) (lastTransmissionTime s) \<or>
        positionTrigger G A w s)) \<and>
    (locationTransmissionThreshold G \<le> difftime (time_identity w) (lastTransmissionTime s) \<longrightarrow>
       sent G A w (s, info) =
         [sendGW2Info (getCurrentServerConnectionHandlerID w) (infoAfter G A w (s, info))
            PluginCommandTarget_SERVER None]) \<and>
    (getAvatarPosition w = prevAvatarPosition s \<or> time_position w = time_identity w \<longrightarrow>
       (sent G A w (s, info) \<noteq> []) =
         (locationTransmissionThreshold G \<le> difftime (time_identity w) (lastTransmissionTime s)))"
proof -
  have gate: "(sent G A w (s, info) \<noteq> []) =
       (locationTransmissionThreshold G \<le> difftime (time_identity w) (lastTransmissionTime s) \<or>
        positionTrigger G A w s)"
    using ch by (simp add: updated_online[OF on] identityTrigger_def)
  have one: "locationTransmissionThreshold G \<le> difftime (time_identity w) (lastTransmissionTime s) \<longrightarrow>
       sent G A w (s, info) =
         [sendGW2Info (getCurrentServerConnectionHandlerID w) (infoAfter G A w (s, info))
            PluginCommandTarget_SERVER None]"
    using ch by (simp add: updated_online[OF on] identityTrigger_def)
  have same: "getAvatarPosition w = prevAvatarPosition s \<or> time_position w = time_identity w \<longrightarrow>
       (sent G A w (s, info) \<noteq> []) =
         (locationTransmissionThreshold G \<le> difftime (time_identity w) (lastTransmissionTime s))"
    unfolding gate by (auto simp add: positionTrigger_def)
  have world: "\<forall>world_names n. getWorldNames w = Some world_names \<and>
       world_names (id_world_id (getIdentity w)) = Some n \<longrightarrow>
       worldName (infoAfter G A w (s, info)) = n"
    by (simp add: infoAfter_world[OF on ch])
  have maps: "\<forall>m. getMap_identity w (id_map_id (getIdentity w)) = Some m \<longrightarrow>
       mapName (infoAfter G A w (s, info)) = map_name m \<and>
       regionId (infoAfter G A w (s, info)) = region_id m \<and>
       regionName (infoAfter G A w (s, info)) = region_name m \<and>
       continentId (infoAfter G A w (s, info)) = continent_id m \<and>
       continentName (infoAfter G A w (s, info)) = continent_name m"
    using infoAfter_map_found[OF on ch, of _ G A info] by blast
  show ?thesis
    by (intro conjI; (fact infoAfter_identity_fields[OF on ch] maps world identityBlock_flag
        gate one same))
qed

text \<open>
  The character Ada arrives on map 15 at 1001, a second after the last transmission: the
  record is filled in and sent once.
\<close>

theorem C5_identity_change_witness:
  "isActive arrivalWorld \<and> isGW2 arrivalWorld \<and>
   getIdentity arrivalWorld \<noteq> prevIdentity arrivalState \<and>
   characterName (infoAfter exampleGlobals exampleApi arrivalWorld (arrivalState, clear)) = ''Ada'' \<and>
   mapId (infoAfter exampleGlobals exampleApi arrivalWorld (arrivalState, clear)) = 15 \<and>
   mapName (infoAfter exampleGlobals exampleApi arrivalWorld (arrivalState, clear)) = ''Queensdale'' \<and>
   worldName (infoAfter exampleGlobals exampleApi arrivalWorld (arrivalState, clear)) = ''Gandara'' \<and>
   sent exampleGlobals exampleApi arrivalWorld (arrivalState, clear) =
     [sendGW2Info 1 (infoAfter exampleGlobals exampleApi arrivalWorld (arrivalState, clear))
        PluginCommandTarget_SERVER None]"
  using C5_identity_change [of arrivalWorld arrivalState exampleGlobals exampleApi clear]
  by (simp add: arrivalWorld_def arrivalState_def exampleWorld_def exampleState_def
      exampleGlobals_def exampleIdentity_def otherIdentity_def exampleMaps_def exampleMap_def
      difftime_def)

text \<open>
  C6. In an iteration that updates the identity, a map source that returns no map for the
  map id leaves the map name "Map" followed by the id, and a list of world names that is
  not available or lacks the world id leaves the world name "World" followed by the id.
  The iteration runs to its end: it records the new identity and that the game is linked.
\<close>

theorem C6_lookup_fallback:
  assumes on: "isActive w \<and> isGW2 w" and ch: "getIdentity w \<noteq> prevIdentity s"
  shows "(getMap_identity w (id_map_id (getIdentity w)) = None \<longrightarrow>
       mapName (infoAfter G A w (s, info)) = ''Map '' @ to_string (id_map_id (getIdentity w))) \<and>
    (getWorldNames w = None \<or>
     (\<exists>world_names. getWorldNames w = Some world_names \<and>
        world_names (id_world_id (getIdentity w)) = None) \<longrightarrow>
       worldName (infoAfter G A w (s, info)) =
         ''World '' @ to_string (id_world_id (getIdentity w))) \<and>
    prevIdentity (stateAfter G A w (s, info)) = getIdentity w \<and>
    prevIsOnline (stateAfter G A w (s, info))"
proof -
  have a: "getMap_identity w (id_map_id (getIdentity w)) = None \<longrightarrow>
       mapName (infoAfter G A w (s, info)) = ''Map '' @ to_string (id_map_id (getIdentity w))"
    using infoAfter_map_missing[OF on ch] by blast
  have b: "getWorldNames w = None \<or>
     (\<exists>world_names. getWorldNames w = Some world_names \<and>
        world_names (id_world_id (getIdentity w)) = None) \<longrightarrow>
       worldName (infoAfter G A w (s, info)) =
         ''World '' @ to_string (id_world_id (getIdentity w))"
    by (auto simp add: infoAfter_world[OF on ch])
  show ?thesis by (intro conjI; (fact a b state_online[OF on]))
qed

text \<open>Map 18 and world 2002 are looked up with no source at hand.\<close>

theorem C6_lookup_fallback_witness:
  "isActive (exampleWorld True 1001 noMap otherIdentity (position 10)) \<and>
   isGW2 (exampleWorld True 1001 noMap otherIdentity (position 10)) \<and>
   getIdentity (exampleWorld True 1001 noMap otherIdentity (position 10)) \<noteq>
     prevIdentity (exampleState 1000 0 True True 10 10) \<and>
   getMap_identity (exampleWorld True 1001 noMap otherIdentity (position 10)) 18 = None \<and>
   getWorldNames (exampleWorld True 1001 noMap otherIdentity (position 10)) = None \<and>
   mapName (infoAfter exampleGlobals exampleApi
      (exampleWorld True 1001 noMap otherIdentity (position 10))
      (exampleState 1000 0 True True 10 10, exampleInfo)) = ''Map 18'' \<and>
   worldName (infoAfter exampleGlobals exampleApi
      (exampleWorld True 1001 noMap otherIdentity (position 10))
      (exampleState 1000 0 True True 10 10, exampleInfo)) = ''World 2002''"
  using C6_lookup_fallback [of "exampleWorld True 1001 noMap otherIdentity (position 10)"
      "exampleState 1000 0 True True 10 10" exampleGlobals exampleApi exampleInfo]
  by (simp add: exampleWorld_def exampleState_def exampleIdentity_def otherIdentity_def noMap_def
      to_string_def digits.simps digit_char_def)

text \<open>
  C7, as amended. In an iteration with the game linked and a new avatar position, when the
  map lookup of line 468 returns no map for the record's map id, the continent position of
  the record is the one it had before the iteration. When the lookup returns a map, the
  continent position is what the transform gives for the map's rectangles, whatever they
  are: the loop does not look at the rectangle.
\<close>

theorem C7_position_retained:
  assumes on: "isActive w \<and> isGW2 w"
    and mv: "getAvatarPosition w \<noteq> prevAvatarPosition s"
  shows "(getMap_position w
            (if getIdentity w \<noteq> prevIdentity s then id_map_id (getIdentity w) else mapId info) = None \<longrightarrow>
          characterContinentPosition (infoAfter G A w (s, info)) = characterContinentPosition info) \<and>
         (\<forall>m. getMap_position w
            (if getIdentity w \<noteq> prevIdentity s then id_map_id (getIdentity w) else mapId info) = Some m \<longrightarrow>
          characterContinentPosition (infoAfter G A w (s, info)) =
            toContinentPosition A (getAvatarPosition w)
              (if getIdentity w \<noteq> prevIdentity s then id_map_id (getIdentity w) else mapId info)
              (map_rect m) (continent_rect m))"
proof (cases "getIdentity w \<noteq> prevIdentity s")
  case True
  let ?i = "fst (identityBlock G w (lastTransmissionTime s) (getIdentity w) info)"
  have id: "mapId ?i = id_map_id (getIdentity w)" by (simp add: identityBlock_identity)
  have after: "infoAfter G A w (s, info) =
      fst (positionBlock G A w (lastTransmissionTime s) (getAvatarPosition w)
             (?i, identityTrigger G w s, prevDistancePosition s))"
    using True mv by (simp add: infoAfter_online[OF on] Let_def)
  show ?thesis
    using True positionBlock_map_missing[of w ?i G A "lastTransmissionTime s" "getAvatarPosition w"
        "identityTrigger G w s" "prevDistancePosition s"]
      positionBlock_map_found[of w ?i _ G A "lastTransmissionTime s" "getAvatarPosition w"
        "identityTrigger G w s" "prevDistancePosition s"]
    by (auto simp add: after id identityBlock_position)
next
  case False
  have after: "infoAfter G A w (s, info) =
      fst (positionBlock G A w (lastTransmissionTime s) (getAvatarPosition w)
             (info, identityTrigger G w s, prevDistancePosition s))"
    using False mv by (simp add: infoAfter_online[OF on] Let_def)
  show ?thesis
    using False positionBlock_map_missing[of w info G A "lastTransmissionTime s" "getAvatarPosition w"
        "identityTrigger G w s" "prevDistancePosition s"]
      positionBlock_map_found[of w info _ G A "lastTransmissionTime s" "getAvatarPosition w"
        "identityTrigger G w s" "prevDistancePosition s"]
    by (auto simp add: after)
qed

text \<open>
  The avatar moves from 10 to 11. With no map source the continent position stays (5, 2);
  with the map 4 units wide that covers 2 units of its continent it becomes (5.5, 2).
\<close>

theorem C7_position_retained_witness:
  "isActive (exampleWorld True 1001 noMap exampleIdentity (position 11)) \<and>
   isGW2 (exampleWorld True 1001 noMap exampleIdentity (position 11)) \<and>
   getAvatarPosition (exampleWorld True 1001 noMap exampleIdentity (position 11)) \<noteq>
     prevAvatarPosition (exampleState 1000 0 True True 10 10) \<and>
   getMap_position (exampleWorld True 1001 noMap exampleIdentity (position 11)) 15 = None \<and>
   characterContinentPosition (infoAfter exampleGlobals exampleApi
      (exampleWorld True 1001 noMap exampleIdentity (position 11))
      (exampleState 1000 0 True True 10 10, exampleInfo)) = \<lparr>v2_x = 5, v2_y = 2\<rparr> \<and>
   getMap_position (exampleWorld True 1001 exampleMaps exampleIdentity (position 11)) 15 =
     Some exampleMap \<and>
   characterContinentPosition (infoAfter exampleGlobals exampleApi
      (exampleWorld True 1001 exampleMaps exampleIdentity (position 11))
      (exampleState 1000 0 True True 10 10, exampleInfo)) = \<lparr>v2_x = 11 / 2, v2_y = 2\<rparr>"
  using C7_position_retained [of "exampleWorld True 1001 noMap exampleIdentity (position 11)"
      "exampleState 1000 0 True True 10 10" exampleInfo exampleGlobals exampleApi]
    C7_position_retained [of "exampleWorld True 1001 exampleMaps exampleIdentity (position 11)"
      "exampleState 1000 0 True True 10 10" exampleInfo exampleGlobals exampleApi]
  by (simp add: exampleWorld_def exampleState_def exampleIdentity_def exampleInfo_def noMap_def
      position_def exampleMaps_def exampleMap_def exampleApi_def affine_def)

text \<open>
  C7 as stated fails. The map source returns map 15 with a rectangle of width 0 and the
  avatar moves from 10 to 11: the continent position of the record, (5, 2) before, is not
  retained. It is the transform's result, which is the same for a record whose continent
  position was (7, 7) before. (On such a rectangle the transform of the plugin divides by
  zero.)
\<close>

theorem C7_counterexample:
  "getMap_position (exampleWorld True 1001 degenerateMaps exampleIdentity (position 11)) 15 =
     Some degenerateMap \<and>
   v2_x (snd (map_rect degenerateMap)) - v2_x (fst (map_rect degenerateMap)) = 0 \<and>
   getAvatarPosition (exampleWorld True 1001 degenerateMaps exampleIdentity (position 11)) \<noteq>
     prevAvatarPosition (exampleState 1000 0 True True 10 10) \<and>
   characterContinentPosition exampleInfo = \<lparr>v2_x = 5, v2_y = 2\<rparr> \<and>
   characterContinentPosition (infoAfter exampleGlobals exampleApi
      (exampleWorld True 1001 degenerateMaps exampleIdentity (position 11))
      (exampleState 1000 0 True True 10 10, exampleInfo)) \<noteq> \<lparr>v2_x = 5, v2_y = 2\<rparr> \<and>
   characterContinentPosition (infoAfter exampleGlobals exampleApi
      (exampleWorld True 1001 degenerateMaps exampleIdentity (position 11))
      (exampleState 1000 0 True True 10 10, exampleInfo)) =
   characterContinentPosition (infoAfter exampleGlobals exampleApi
      (exampleWorld True 1001 degenerateMaps exampleIdentity (position 11))
      (exampleState 1000 0 True True 10 10,
       exampleInfo\<lparr>characterContinentPosition := \<lparr>v2_x = 7, v2_y = 7\<rparr>\<rparr>))"
  by (simp add: infoAfter_def loopIteration_def positionBlock_def Let_def example_defs2
      degenerateMaps_def degenerateMap_def)

section \<open>Session events and commands\<close>

text \<open>
  C4, as amended. When a connection is disconnected, or its server stops, every record of
  that connection leaves the container and the records of other connections stay. When a
  client is kicked from the server, the record of that connection and client leaves the
  container and every other record stays. When a connection is established, the check for a
  new version of the plugin is started; the container and the local record are unchanged and
  nothing is sent to other clients.
\<close>

theorem C4_session_events:
  "(\<forall>cl. gw2RemoteInfoContainer
           (fst (ts3plugin_onConnectStatusChangeEvent h STATUS_DISCONNECTED ps)) (h, cl) = None) \<and>
   (\<forall>h' cl. h' \<noteq> h \<longrightarrow>
      gw2RemoteInfoContainer
        (fst (ts3plugin_onConnectStatusChangeEvent h STATUS_DISCONNECTED ps)) (h', cl) =
      gw2RemoteInfoContainer ps (h', cl)) \<and>
   snd (ts3plugin_onConnectStatusChangeEvent h STATUS_DISCONNECTED ps) = [] \<and>
   ts3plugin_onServerStopEvent h ps =
     ts3plugin_onConnectStatusChangeEvent h STATUS_DISCONNECTED ps \<and>
   gw2RemoteInfoContainer (fst (ts3plugin_onClientKickFromServerEvent h c ps)) (h, c) = None \<and>
   (\<forall>k. k \<noteq> (h, c) \<longrightarrow>
      gw2RemoteInfoContainer (fst (ts3plugin_onClientKickFromServerEvent h c ps)) k =
      gw2RemoteInfoContainer ps k) \<and>
   snd (ts3plugin_onClientKickFromServerEvent h c ps) = [] \<and>
   ts3plugin_onConnectStatusChangeEvent h STATUS_CONNECTION_ESTABLISHED ps =
     (ps, [checkForUpdates])"
  by (simp add: ts3plugin_onConnectStatusChangeEvent_def ts3plugin_onServerStopEvent_def
      ts3plugin_onClientKickFromServerEvent_def removeAll_session remove_one)

text \<open>
  The container holds clients 7 and 8 of connection 1 and client 7 of connection 2.
  Disconnecting connection 1 leaves only the last; kicking client 7 of connection 1 leaves
  the other two.
\<close>

theorem C4_session_events_witness:
  "gw2RemoteInfoContainer examplePluginState (1, 7) = Some (exampleRemote 1 7) \<and>
   gw2RemoteInfoContainer
     (fst (ts3plugin_onConnectStatusChangeEvent 1 STATUS_DISCONNECTED examplePluginState)) (1, 7) = None \<and>
   gw2RemoteInfoContainer
     (fst (ts3plugin_onConnectStatusChangeEvent 1 STATUS_DISCONNECTED examplePluginState)) (1, 8) = None \<and>
   gw2RemoteInfoContainer
     (fst (ts3plugin_onConnectStatusChangeEvent 1 STATUS_DISCONNECTED examplePluginState)) (2, 7) =
     Some (exampleRemote 2 7) \<and>
   gw2RemoteInfoContainer
     (fst (ts3plugin_onClientKickFromServerEvent 1 7 examplePluginState)) (1, 7) = None \<and>
   gw2RemoteInfoContainer
     (fst (ts3plugin_onClientKickFromServerEvent 1 7 examplePluginState)) (1, 8) =
     Some (exampleRemote 1 8) \<and>
   gw2RemoteInfoContainer
     (fst (ts3plugin_onClientKickFromServerEvent 1 7 examplePluginState)) (2, 7) =
     Some (exampleRemote 2 7)"
  using C4_session_events [of 1 examplePluginState 7]
  by (simp add: examplePluginState_def)

text \<open>
  C4 as stated fails: establishing connection 1 starts the check for a new version and sends
  no record.
\<close>

theorem C4_counterexample:
  "ts3plugin_onConnectStatusChangeEvent 1 STATUS_CONNECTION_ESTABLISHED examplePluginState =
     (examplePluginState, [checkForUpdates])"
  by (simp add: ts3plugin_onConnectStatusChangeEvent_def)

text \<open>
  C8. A command whose kind is \<open>CMD_NONE\<close> or any kind that the callback does not know, a
  \<open>CMD_GW2INFO\<close> command without exactly 2 parameters and a \<open>CMD_REQUESTGW2INFO\<close> command
  without exactly 1 parameter leave the state of the callbacks as it was, send nothing and
  raise no exception.
\<close>

theorem C8_bad_command_ignored:
  assumes "parseCommand C pluginCommand = (commandType, commandParameters)"
    and "commandType = CMD_NONE \<or> (\<exists>n. commandType = CMD_OTHER n) \<or>
         (commandType = CMD_GW2INFO \<and> length commandParameters \<noteq> 2) \<or>
         (commandType = CMD_REQUESTGW2INFO \<and> length commandParameters \<noteq> 1)"
  shows "ts3plugin_onPluginCommandEvent C current h pluginCommand ps = Inr (ps, [])"
  using assms by (auto simp add: ts3plugin_onPluginCommandEvent_def)

text \<open>An unknown kind, an update with one parameter and a request with two.\<close>

theorem C8_bad_command_ignored_witness:
  "parseCommand exampleCommands ''x1'' = (CMD_NONE, [''1'']) \<and>
   ts3plugin_onPluginCommandEvent exampleCommands 1 1 ''x1'' examplePluginState =
     Inr (examplePluginState, []) \<and>
   parseCommand exampleCommands ''i7'' = (CMD_GW2INFO, [''7'']) \<and>
   ts3plugin_onPluginCommandEvent exampleCommands 1 1 ''i7'' examplePluginState =
     Inr (examplePluginState, []) \<and>
   parseCommand exampleCommands ''r78'' = (CMD_REQUESTGW2INFO, [''7'', ''8'']) \<and>
   ts3plugin_onPluginCommandEvent exampleCommands 1 1 ''r78'' examplePluginState =
     Inr (examplePluginState, [])"
  using C8_bad_command_ignored [of exampleCommands "''x1''" CMD_NONE "[''1'']" 1 1 examplePluginState]
    C8_bad_command_ignored [of exampleCommands "''i7''" CMD_GW2INFO "[''7'']" 1 1 examplePluginState]
    C8_bad_command_ignored [of exampleCommands "''r78''" CMD_REQUESTGW2INFO "[''7'', ''8'']" 1 1
      examplePluginState]
  by (simp add: exampleCommands_def)

text \<open>
  C9. A \<open>CMD_REQUESTGW2INFO\<close> command with one parameter makes the callback send the local
  record once, to the client whose identifier \<^verbatim>\<open>atoi\<close> reads from the parameter and to no one
  else, on the connection of the command; the state of the callbacks is unchanged. When the
  parameter is the decimal text of a client identifier, that client is the target.
\<close>

theorem C9_request_answered:
  assumes "parseCommand C pluginCommand = (CMD_REQUESTGW2INFO, [p])"
  shows "ts3plugin_onPluginCommandEvent C current h pluginCommand ps =
      Inr (ps, [sendGW2Info h (gw2Info ps) PluginCommandTarget_CLIENT (Some (to_anyID (atoi p)))]) \<and>
    (\<forall>c. p = digits (unat c) \<longrightarrow>
       ts3plugin_onPluginCommandEvent C current h pluginCommand ps =
         Inr (ps, [sendGW2Info h (gw2Info ps) PluginCommandTarget_CLIENT (Some c)]))"
  using assms by (simp add: ts3plugin_onPluginCommandEvent_def vector_at_def anyID_text)

text \<open>A request from client 7 on connection 2 is answered to client 7.\<close>

theorem C9_request_answered_witness:
  "parseCommand exampleCommands ''r7'' = (CMD_REQUESTGW2INFO, [''7'']) \<and>
   ts3plugin_onPluginCommandEvent exampleCommands 1 2 ''r7'' examplePluginState =
     Inr (examplePluginState,
          [sendGW2Info 2 (gw2Info examplePluginState) PluginCommandTarget_CLIENT (Some 7)])"
  using C9_request_answered [of exampleCommands "''r7''" "''7''" 1 2 examplePluginState]
  by (simp add: exampleCommands_def to_anyID_def atoi_def isspace_def isdigit_def)

end
